theory Spec2Isabelle
  imports Main "HOL-Library.Word" "HOL-Library.Signed_Division"
begin

unbundle bit_operations_syntax

section \<open>Machine integers, byte buffers and the C stream\<close>

text \<open>
  The block devices of \<^verbatim>\<open>Core/FileSystems/BlockDevices.cpp\<close> work on bytes, on
  unsigned 32 and 64 bit integers and on the C type \<^verbatim>\<open>int\<close>.  A C \<^verbatim>\<open>int\<close> is a
  32 bit word that is read with \<^const>\<open>sint\<close>; signed overflow wraps around.
\<close>

type_synonym u8 = "8 word"
type_synonym u32 = "32 word"
type_synonym u64 = "64 word"
type_synonym s32 = "32 word"

text \<open>
  What the C++ code does outside the language's defined behaviour is a value of the
  model: a memory access outside a buffer, an integer division that traps (by zero, or
  \<^verbatim>\<open>INT_MIN / -1\<close>) and an array allocation of negative size end a call with a
  \<open>fault\<close>.
\<close>

datatype fault = OutOfBounds | DivisionTrap | BadAlloc

text \<open>Little-endian decoding of a byte sequence (the \<^verbatim>\<open>u32_le\<close>, \<^verbatim>\<open>u64_le\<close> fields).\<close>

fun le_word :: "u8 list \<Rightarrow> 'a::len word" where
  "le_word [] = 0"
| "le_word (b # bs) = ucast b OR push_bit 8 (le_word bs)"

definition le32 :: "u8 list \<Rightarrow> u32" where
  "le32 bs = le_word (take 4 bs)"

definition le64 :: "u8 list \<Rightarrow> u64" where
  "le64 bs = le_word (take 8 bs)"

text \<open>
  \<^verbatim>\<open>memcpy\<close> out of a buffer, \<^verbatim>\<open>memcpy\<close> into a buffer and \<^verbatim>\<open>memset\<close>, each
  checked against the size of the buffer.
\<close>

definition mem_read :: "u8 list \<Rightarrow> nat \<Rightarrow> nat \<Rightarrow> fault + u8 list" where
  "mem_read buf off n =
     (if off + n \<le> length buf then Inr (take n (drop off buf)) else Inl OutOfBounds)"

definition mem_write :: "u8 list \<Rightarrow> nat \<Rightarrow> u8 list \<Rightarrow> fault + u8 list" where
  "mem_write buf off d =
     (if off + length d \<le> length buf
      then Inr (take off buf @ d @ drop (off + length d) buf)
      else Inl OutOfBounds)"

definition memset :: "u8 list \<Rightarrow> nat \<Rightarrow> u8 \<Rightarrow> nat \<Rightarrow> fault + u8 list" where
  "memset buf off c n = mem_write buf off (replicate n c)"

text \<open>
  A \<^verbatim>\<open>FILE *\<close> opened for reading: the bytes of the file and the read position.
  \<open>fseek_set\<close> is \<^verbatim>\<open>fseek(f, off, SEEK_SET)\<close> (also \<^verbatim>\<open>fseeko\<close>): a negative offset
  is refused and leaves the position where it was.  \<open>fread\<close> is
  \<^verbatim>\<open>fread(buf, 1, n, f)\<close>: it returns the bytes that the file still holds, at most
  \<open>n\<close>, and advances the position past them.  The count is a \<^verbatim>\<open>size_t\<close> of 64
  bits; a count of \<open>2 ^ 63\<close> or more does not fit the \<^verbatim>\<open>ssize_t\<close> of the
  \<^verbatim>\<open>read\<close> underneath, which refuses it: nothing is stored and the position stays.
\<close>

record FILE =
  content :: "u8 list"
  pos :: nat

definition fseek_set :: "FILE \<Rightarrow> int \<Rightarrow> FILE" where
  "fseek_set f off = (if off < 0 then f else f\<lparr>pos := nat off\<rparr>)"

definition fread :: "FILE \<Rightarrow> nat \<Rightarrow> u8 list \<times> FILE" where
  "fread f n =
     (if 2 ^ 63 \<le> n then ([], f)
      else
        let d = take n (drop (pos f) (content f))
        in (d, f\<lparr>pos := pos f + length d\<rparr>))"

text \<open>
  The contents of memory that the code reads before it has written it (a local
  array, a field, a \<^verbatim>\<open>new u8[n]\<close>) are indeterminate: they are a parameter,
  one byte sequence for each object.
\<close>

type_synonym junk = "string \<Rightarrow> nat \<Rightarrow> u8"

definition uninit :: "junk \<Rightarrow> string \<Rightarrow> nat \<Rightarrow> u8 list" where
  "uninit j name n = map (j name) [0..<n]"

text \<open>\<^verbatim>\<open>fread\<close> into an object: the bytes read replace the head of the object.\<close>

definition overlay :: "u8 list \<Rightarrow> u8 list \<Rightarrow> u8 list" where
  "overlay d buf = d @ drop (length d) buf"

section \<open>The NPDRM table\<close>

text \<open>
  The constructor of \<^verbatim>\<open>NPDRMDemoBlockDevice\<close> walks the table through a
  \<^verbatim>\<open>u32 *p\<close>, eight words for each entry, \<^verbatim>\<open>p += 8\<close> after each.
\<close>

type_synonym words8 = "u32 \<times> u32 \<times> u32 \<times> u32 \<times> u32 \<times> u32 \<times> u32 \<times> u32"

definition descramble_entry :: "words8 \<Rightarrow> words8" where
  "descramble_entry = (\<lambda>(p0, p1, p2, p3, p4, p5, p6, p7).
     let k0 = p0 XOR p1;
         k1 = p1 XOR p2;
         k2 = p0 XOR p3;
         k3 = p2 XOR p3
     in (p0, p1, p2, p3, p4 XOR k3, p5 XOR k1, p6 XOR k2, p7 XOR k0))"

fun descramble_table :: "words8 list \<Rightarrow> words8 list" where
  "descramble_table [] = []"
| "descramble_table (p # ps) = descramble_entry p # descramble_table ps"

section \<open>The interface\<close>

text \<open>
  Modelled from the spec: the class declarations (\<^verbatim>\<open>BlockDevices.h\<close>) are not
  among the sources.  \<open>block_size()\<close> is the constant 2048 for every variant; the
  fields of the three classes are the ones that \<^verbatim>\<open>BlockDevices.cpp\<close> reads and
  writes, with the types its expressions give them.
\<close>

definition GetBlockSize :: nat where
  "GetBlockSize = 2048"

section \<open>The plain device\<close>

record FileBlockDevice =
  file_f :: FILE
  filesize :: nat

text \<open>
  The constructor (the branch that is not for Android): \<^verbatim>\<open>fseek\<close> to the end,
  \<^verbatim>\<open>ftello\<close>, \<^verbatim>\<open>fseek\<close> back to the start.
\<close>

definition FileBlockDevice :: "FILE \<Rightarrow> FileBlockDevice" where
  "FileBlockDevice file =
     (let f1 = file\<lparr>pos := length (content file)\<rparr>;
          fsz = pos f1;
          f2 = fseek_set f1 0
      in \<lparr>file_f = f2, filesize = fsz\<rparr>)"

text \<open>
  Modelled from the spec: \<open>block_count()\<close> of the plain device is declared in the
  missing header; it is the number of whole blocks in \<open>filesize\<close>, as an unsigned
  32 bit integer.
\<close>

definition File_GetNumBlocks :: "FileBlockDevice \<Rightarrow> u32" where
  "File_GetNumBlocks dev = word_of_nat (filesize dev div GetBlockSize)"

text \<open>
  \<^verbatim>\<open>FileBlockDevice::ReadBlock\<close>.  The offset is \<^verbatim>\<open>(u64)blockNumber * (u64)2048\<close>:
  the \<^verbatim>\<open>int\<close> is sign-extended, the product wraps, and \<^verbatim>\<open>fseeko\<close> reads it as a
  signed 64 bit offset.  A short read is logged only: the result is \<^verbatim>\<open>true\<close>, and
  the bytes of \<open>outPtr\<close> past the ones read stay as they were.
\<close>

definition File_ReadBlock ::
  "FileBlockDevice \<Rightarrow> s32 \<Rightarrow> u8 list \<Rightarrow> fault + (FileBlockDevice \<times> u8 list \<times> bool)" where
  "File_ReadBlock dev blockNumber outPtr =
     (let f1 = fseek_set (file_f dev) (sint ((scast blockNumber :: u64) * 2048));
          (d, f2) = fread f1 2048
      in case mem_write outPtr 0 d of
           Inl e \<Rightarrow> Inl e
         | Inr out \<Rightarrow> Inr (dev\<lparr>file_f := f2\<rparr>, out, True))"

section \<open>The compressed frame device (CISO)\<close>

record CISO_H =
  magic :: "u8 list"
  header_size :: u32
  total_bytes :: u64
  block_size :: u32
  ver :: u8
  align :: u8
  rsv_06 :: "u8 list"

text \<open>The 24 bytes of a \<^verbatim>\<open>CISO_H\<close>, field by field (the struct has no padding).\<close>

definition CISO_H_of_bytes :: "u8 list \<Rightarrow> CISO_H" where
  "CISO_H_of_bytes bs =
     \<lparr>magic = take 4 bs,
      header_size = le32 (drop 4 bs),
      total_bytes = le64 (drop 8 bs),
      block_size = le32 (drop 16 bs),
      ver = bs ! 20,
      align = bs ! 21,
      rsv_06 = take 2 (drop 22 bs)\<rparr>"

record CISOFileBlockDevice =
  ciso_f :: FILE
  index :: "u32 list"
  readBuffer :: "u8 list"
  zlibBuffer :: "u8 list"
  zlibBufferFrame :: u32
  indexShift :: u8
  blockShift :: nat
  frameSize :: u32
  ciso_numBlocks :: u32
  numFrames :: u32

text \<open>\<^verbatim>\<open>for (u32 i = frameSize; i > 0x800; i >>= 1) ++blockShift;\<close>\<close>

function blockShift_loop :: "u32 \<Rightarrow> nat \<Rightarrow> nat" where
  "blockShift_loop i n = (if i > 0x800 then blockShift_loop (drop_bit 1 i) (n + 1) else n)"
  by pat_completeness auto
termination
proof (relation "measure (\<lambda>(i, n). unat i)")
  show "wf (measure (\<lambda>(i :: u32, n :: nat). unat i))"
    by simp
next
  fix i :: u32 and n :: nat
  assume "0x800 < i"
  then have "unat (drop_bit 1 i) < unat i"
    by (simp add: unat_drop_bit_eq drop_bit_eq_div word_less_nat_alt unat_div)
  then show "((drop_bit 1 i, n + 1), (i, n)) \<in> measure (\<lambda>(i, n). unat i)"
    by simp
qed

text \<open>
  The constructor.  \<^verbatim>\<open>fread(&hdr, sizeof(CISO_H), 1, f)\<close> fills the head of the
  local \<open>hdr\<close>; the checks of the magic, of the version and of the frame size only
  log.  \<^verbatim>\<open>(totalSize + frameSize - 1) / frameSize\<close> is a 64 bit division that
  traps when \<open>frameSize\<close> is zero.  The buffers have
  \<^verbatim>\<open>frameSize + (1 << indexShift)\<close> bytes (32 bit arithmetic; a shift by 32 or
  more, undefined in C, gives 0 here).  A short read of the index zero-fills it.
\<close>

definition CISOFileBlockDevice :: "junk \<Rightarrow> FILE \<Rightarrow> fault + CISOFileBlockDevice" where
  "CISOFileBlockDevice j file =
     (let (d, f1) = fread file 24;
          hdr = CISO_H_of_bytes (overlay d (uninit j ''hdr'' 24));
          frameSize' = block_size hdr;
          blockShift' = blockShift_loop frameSize' 0;
          indexShift' = align hdr;
          totalSize = total_bytes hdr
      in if frameSize' = 0 then Inl DivisionTrap
         else
           let numFrames' = (ucast ((totalSize + ucast frameSize' - 1) div ucast frameSize') :: u32);
               numBlocks' = (ucast (totalSize div 2048) :: u32);
               bufSize = unat (frameSize' + push_bit (unat indexShift') 1);
               indexSize = numFrames' + 1;
               (di, f2) = fread f1 (4 * unat indexSize);
               index' = (if length di div 4 \<noteq> unat indexSize
                         then replicate (unat indexSize) 0
                         else map (\<lambda>i. le32 (drop (4 * i) di)) [0..<unat indexSize])
           in Inr \<lparr>ciso_f = f2,
                   index = index',
                   readBuffer = uninit j ''readBuffer'' bufSize,
                   zlibBuffer = uninit j ''zlibBuffer'' bufSize,
                   zlibBufferFrame = numFrames',
                   indexShift = indexShift',
                   blockShift = blockShift',
                   frameSize = frameSize',
                   ciso_numBlocks = numBlocks',
                   numFrames = numFrames'\<rparr>)"

text \<open>
  The decompressor port (zlib): the result of \<^verbatim>\<open>inflateInit2(&z, -15)\<close>, and
  \<^verbatim>\<open>inflate(&z, Z_FINISH)\<close> as a function from the input bytes and
  \<open>avail_out\<close> to the status and the bytes it produces; at most \<open>avail_out\<close> of
  them are stored at \<open>next_out\<close>, and \<open>total_out\<close> is their number.
\<close>

record zlib =
  inflateInit2 :: int
  inflate :: "u8 list \<Rightarrow> nat \<Rightarrow> int \<times> u8 list"

definition Z_OK :: int where
  "Z_OK = 0"

definition Z_STREAM_END :: int where
  "Z_STREAM_END = 1"

text \<open>
  The quantities that \<^verbatim>\<open>CISOFileBlockDevice::ReadBlock\<close> computes before it
  branches.  \<open>blockNumber\<close> is an \<^verbatim>\<open>int\<close>: \<^verbatim>\<open>>>\<close> is the arithmetic shift.
\<close>

definition frameNumber_of :: "CISOFileBlockDevice \<Rightarrow> s32 \<Rightarrow> u32" where
  "frameNumber_of dev blockNumber = signed_drop_bit (blockShift dev) blockNumber"

definition compressedReadPos_of :: "CISOFileBlockDevice \<Rightarrow> u32 \<Rightarrow> u64" where
  "compressedReadPos_of dev idx =
     push_bit (unat (indexShift dev)) (ucast (idx AND 0x7FFFFFFF) :: u64)"

definition compressedOffset_of :: "CISOFileBlockDevice \<Rightarrow> s32 \<Rightarrow> u32" where
  "compressedOffset_of dev blockNumber =
     (blockNumber AND (push_bit (blockShift dev) 1 - 1)) * 2048"

text \<open>
  The three branches of \<^verbatim>\<open>ReadBlock\<close>.  Each result is the device, the caller's
  buffer, the boolean, and the number of calls of \<^verbatim>\<open>inflate\<close> made.

  The frame is stored uncompressed: 2048 bytes are read straight into \<open>outPtr\<close>,
  and what a short read leaves is zero-filled.
\<close>

definition ReadBlock_plain ::
  "CISOFileBlockDevice \<Rightarrow> u64 \<Rightarrow> u32 \<Rightarrow> u8 list \<Rightarrow>
   fault + (CISOFileBlockDevice \<times> u8 list \<times> bool \<times> nat)" where
  "ReadBlock_plain dev compressedReadPos compressedOffset outPtr =
     (let f1 = fseek_set (ciso_f dev) (sint (compressedReadPos + ucast compressedOffset));
          (d, f2) = fread f1 GetBlockSize;
          readSize = length d
      in case mem_write outPtr 0 d of
           Inl e \<Rightarrow> Inl e
         | Inr out1 \<Rightarrow>
             (case (if readSize < GetBlockSize
                    then memset out1 readSize 0 (GetBlockSize - readSize)
                    else Inr out1) of
                Inl e \<Rightarrow> Inl e
              | Inr out2 \<Rightarrow> Inr (dev\<lparr>ciso_f := f2\<rparr>, out2, True, 0)))"

text \<open>The frame is the cached one: \<^verbatim>\<open>memcpy(outPtr, zlibBuffer + compressedOffset, 2048)\<close>.\<close>

definition ReadBlock_cached ::
  "CISOFileBlockDevice \<Rightarrow> u32 \<Rightarrow> u8 list \<Rightarrow>
   fault + (CISOFileBlockDevice \<times> u8 list \<times> bool \<times> nat)" where
  "ReadBlock_cached dev compressedOffset outPtr =
     (case mem_read (zlibBuffer dev) (unat compressedOffset) GetBlockSize of
        Inl e \<Rightarrow> Inl e
      | Inr d \<Rightarrow>
          (case mem_write outPtr 0 d of
             Inl e \<Rightarrow> Inl e
           | Inr out \<Rightarrow> Inr (dev, out, True, 0)))"

text \<open>
  Otherwise the compressed frame is read into \<open>readBuffer\<close> and inflated, into
  \<open>outPtr\<close> when a frame is one block and into \<open>zlibBuffer\<close> when it is larger.
  When \<^verbatim>\<open>inflateInit2\<close> fails the call returns \<^verbatim>\<open>false\<close> at once.  A status
  other than \<^verbatim>\<open>Z_STREAM_END\<close> and a length other than \<open>frameSize\<close> zero-fill
  \<open>outPtr\<close> and return \<^verbatim>\<open>false\<close>; \<open>zlibBufferFrame\<close> is assigned on success only.
\<close>

definition ReadBlock_inflate ::
  "zlib \<Rightarrow> CISOFileBlockDevice \<Rightarrow> u32 \<Rightarrow> u64 \<Rightarrow> nat \<Rightarrow> u32 \<Rightarrow> u8 list \<Rightarrow>
   fault + (CISOFileBlockDevice \<times> u8 list \<times> bool \<times> nat)" where
  "ReadBlock_inflate z dev frameNumber compressedReadPos compressedReadSize compressedOffset outPtr =
     (let f1 = fseek_set (ciso_f dev) (sint compressedReadPos);
          (d, f2) = fread f1 compressedReadSize;
          readSize = (word_of_nat (length d) :: u32)
      in case mem_write (readBuffer dev) 0 d of
           Inl e \<Rightarrow> Inl e
         | Inr rb \<Rightarrow>
             let dev1 = dev\<lparr>ciso_f := f2, readBuffer := rb\<rparr>
             in if inflateInit2 z \<noteq> Z_OK then Inr (dev1, outPtr, False, 0)
                else
                  let (status, produced) = inflate z (take (unat readSize) rb) (unat (frameSize dev));
                      written = take (unat (frameSize dev)) produced;
                      direct = (unat (frameSize dev) = GetBlockSize)
                  in case (if direct then mem_write outPtr 0 written
                           else mem_write (zlibBuffer dev) 0 written) of
                       Inl e \<Rightarrow> Inl e
                     | Inr nb \<Rightarrow>
                         let out1 = (if direct then nb else outPtr);
                             dev2 = (if direct then dev1 else dev1\<lparr>zlibBuffer := nb\<rparr>)
                         in if status \<noteq> Z_STREAM_END
                            then (case memset out1 0 0 GetBlockSize of
                                    Inl e \<Rightarrow> Inl e
                                  | Inr out2 \<Rightarrow> Inr (dev2, out2, False, 1))
                            else if length written \<noteq> unat (frameSize dev)
                            then (case memset out1 0 0 GetBlockSize of
                                    Inl e \<Rightarrow> Inl e
                                  | Inr out2 \<Rightarrow> Inr (dev2, out2, False, 1))
                            else if direct then Inr (dev2, out1, True, 1)
                            else
                              (case mem_read (zlibBuffer dev2) (unat compressedOffset) GetBlockSize of
                                 Inl e \<Rightarrow> Inl e
                               | Inr s \<Rightarrow>
                                   (case mem_write out1 0 s of
                                      Inl e \<Rightarrow> Inl e
                                    | Inr out2 \<Rightarrow>
                                        Inr (dev2\<lparr>zlibBufferFrame := frameNumber\<rparr>, out2, True, 1))))"

text \<open>
  \<^verbatim>\<open>CISOFileBlockDevice::ReadBlock\<close>.  \<^verbatim>\<open>(u32)blockNumber >= numBlocks\<close> is the
  unsigned comparison.  \<open>index[frameNumber]\<close> and \<open>index[frameNumber + 1]\<close> are read
  before the branch.  \<open>compressedReadSize\<close> is the 64 bit difference of the two
  positions, which wraps when the index runs backwards.
\<close>

definition CISO_ReadBlock ::
  "zlib \<Rightarrow> CISOFileBlockDevice \<Rightarrow> s32 \<Rightarrow> u8 list \<Rightarrow>
   fault + (CISOFileBlockDevice \<times> u8 list \<times> bool \<times> nat)" where
  "CISO_ReadBlock z dev blockNumber outPtr =
     (if blockNumber \<ge> ciso_numBlocks dev
      then (case memset outPtr 0 0 GetBlockSize of
              Inl e \<Rightarrow> Inl e
            | Inr out \<Rightarrow> Inr (dev, out, False, 0))
      else
        let frameNumber = frameNumber_of dev blockNumber
        in if \<not> (unat frameNumber < length (index dev) \<and> unat (frameNumber + 1) < length (index dev))
           then Inl OutOfBounds
           else
             let idx = index dev ! unat frameNumber;
                 compressedReadPos = compressedReadPos_of dev idx;
                 compressedReadEnd = compressedReadPos_of dev (index dev ! unat (frameNumber + 1));
                 compressedReadSize = unat (compressedReadEnd - compressedReadPos);
                 compressedOffset = compressedOffset_of dev blockNumber
             in if idx AND 0x80000000 \<noteq> 0
                then ReadBlock_plain dev compressedReadPos compressedOffset outPtr
                else if zlibBufferFrame dev = frameNumber
                then ReadBlock_cached dev compressedOffset outPtr
                else ReadBlock_inflate z dev frameNumber compressedReadPos compressedReadSize
                       compressedOffset outPtr)"



section \<open>The encrypted demo device (NPDRM)\<close>

text \<open>
  The ports of the device: the key derivation of \<^verbatim>\<open>sceDrmBBMacInit\<close>,
  \<^verbatim>\<open>sceDrmBBMacUpdate\<close> and \<^verbatim>\<open>bbmac_getkey\<close> (from the bytes that are hashed and
  the 16 bytes of the MAC to the key), the cipher of \<^verbatim>\<open>sceDrmBBCipherInit\<close>,
  \<^verbatim>\<open>sceDrmBBCipherUpdate\<close> and \<^verbatim>\<open>sceDrmBBCipherFinal\<close> (from the two keys, the
  seed and the data to the decrypted data), and \<^verbatim>\<open>lzrc_decompress\<close> (from the input
  and \<open>out_len\<close> to its result and the bytes it stores at \<open>out\<close>).
\<close>

record npdrm_ports =
  bbmac_getkey :: "u8 list \<Rightarrow> u8 list \<Rightarrow> u8 list"
  bbcipher :: "u8 list \<Rightarrow> u8 list \<Rightarrow> u32 \<Rightarrow> u8 list \<Rightarrow> u8 list"
  lzrc_decompress :: "u8 list \<Rightarrow> nat \<Rightarrow> int \<times> u8 list"

text \<open>The cipher works in place: it replaces the data by as many decrypted bytes.\<close>

definition sceDrmBBCipher :: "npdrm_ports \<Rightarrow> u8 list \<Rightarrow> u8 list \<Rightarrow> u32 \<Rightarrow> u8 list \<Rightarrow> u8 list" where
  "sceDrmBBCipher p hk vk seed d = overlay (take (length d) (bbcipher p hk vk seed d)) d"

text \<open>
  Modelled from the spec: \<^verbatim>\<open>struct table_info\<close> is declared in the missing
  header.  An entry has 32 bytes, \<open>(offset, size, flags, unk)\<close> after the 16 bytes
  of the MAC; in the eight words of the constructor's \<^verbatim>\<open>u32 *p\<close> these are
  \<open>p4\<close>, \<open>p5\<close>, \<open>p6\<close> and \<open>p7\<close>.  \<open>size\<close>, \<open>flag\<close> and \<open>unk_1c\<close> are \<^verbatim>\<open>int\<close>.
\<close>

type_synonym table_info = words8

definition words8_of_bytes :: "u8 list \<Rightarrow> words8" where
  "words8_of_bytes bs =
     (le32 bs, le32 (drop 4 bs), le32 (drop 8 bs), le32 (drop 12 bs),
      le32 (drop 16 bs), le32 (drop 20 bs), le32 (drop 24 bs), le32 (drop 28 bs))"

definition ti_offset :: "table_info \<Rightarrow> u32" where
  "ti_offset = (\<lambda>(p0, p1, p2, p3, p4, p5, p6, p7). p4)"

definition ti_size :: "table_info \<Rightarrow> s32" where
  "ti_size = (\<lambda>(p0, p1, p2, p3, p4, p5, p6, p7). p5)"

definition ti_flag :: "table_info \<Rightarrow> s32" where
  "ti_flag = (\<lambda>(p0, p1, p2, p3, p4, p5, p6, p7). p6)"

definition ti_unk_1c :: "table_info \<Rightarrow> s32" where
  "ti_unk_1c = (\<lambda>(p0, p1, p2, p3, p4, p5, p6, p7). p7)"

record NPDRMDemoBlockDevice =
  npdrm_f :: FILE
  lbaSize :: u32
  psarOffset :: u32
  blockSize :: s32
  blockLBAs :: s32
  npdrm_numBlocks :: u32
  vkey :: "u8 list"
  hkey :: "u8 list"
  table :: "table_info list"
  currentBlock :: s32
  blockBuf :: "u8 list"
  tempBuf :: "u8 list"

text \<open>
  The constructor.  Short reads only log.  \<open>numBlocks\<close> is an unsigned division
  by \<open>blockLBAs\<close>, which traps at zero; \<^verbatim>\<open>new u8[blockSize]\<close> with a negative
  \<^verbatim>\<open>int\<close> fails.  The table is read, descrambled entry by entry, and
  \<open>currentBlock\<close> is set to \<open>-1\<close>.
\<close>

definition NPDRMDemoBlockDevice ::
  "npdrm_ports \<Rightarrow> junk \<Rightarrow> FILE \<Rightarrow> fault + NPDRMDemoBlockDevice" where
  "NPDRMDemoBlockDevice p j file =
     (let f1 = fseek_set file 0x24;
          (d1, f2) = fread f1 4;
          psarOffset' = le32 (overlay d1 (uninit j ''psarOffset'' 4));
          f3 = fseek_set f2 (uint psarOffset');
          (d2, f4) = fread f3 256;
          np_header = overlay d2 (uninit j ''np_header'' 256);
          vkey' = bbmac_getkey p (take 0xc0 np_header) (take 0x10 (drop 0xc0 np_header));
          hkey' = take 0x10 (drop 0xa0 np_header);
          np_header' = take 0x40 np_header
                       @ sceDrmBBCipher p hkey' vkey' 0 (take 0x60 (drop 0x40 np_header))
                       @ drop 0xa0 np_header;
          lbaStart = le32 (drop 0x54 np_header');
          lbaEnd = le32 (drop 0x64 np_header');
          lbaSize' = lbaEnd - lbaStart + 1;
          blockLBAs' = le32 (drop 0x0c np_header');
          blockSize' = blockLBAs' * 2048
      in if blockLBAs' = 0 then Inl DivisionTrap
         else
           let numBlocks' = (lbaSize' + blockLBAs' - 1) div blockLBAs'
           in if sint blockSize' < 0 then Inl BadAlloc
              else
                let tableOffset = le32 (drop 0x6c np_header');
                    f5 = fseek_set f4 (uint (psarOffset' + tableOffset));
                    tableSize = numBlocks' * 32;
                    (d3, f6) = fread f5 (unat tableSize);
                    raw = overlay d3 (uninit j ''table'' (32 * unat numBlocks'));
                    table' = descramble_table
                               (map (\<lambda>i. words8_of_bytes (drop (32 * i) raw)) [0..<unat numBlocks'])
                in Inr \<lparr>npdrm_f = f6,
                        lbaSize = lbaSize',
                        psarOffset = psarOffset',
                        blockSize = blockSize',
                        blockLBAs = blockLBAs',
                        npdrm_numBlocks = numBlocks',
                        vkey = vkey',
                        hkey = hkey',
                        table = table',
                        currentBlock = - 1,
                        blockBuf = uninit j ''blockBuf'' (nat (sint blockSize')),
                        tempBuf = uninit j ''tempBuf'' (nat (sint blockSize'))\<rparr>)"

text \<open>\<^verbatim>\<open>memcpy(outPtr, blockBuf + lba * 2048, 2048); return true;\<close>\<close>

definition ReadBlock_copy ::
  "NPDRMDemoBlockDevice \<Rightarrow> s32 \<Rightarrow> u8 list \<Rightarrow>
   fault + (NPDRMDemoBlockDevice \<times> u8 list \<times> bool)" where
  "ReadBlock_copy dev lba outPtr =
     (if sint (lba * 2048) < 0 then Inl OutOfBounds
      else case mem_read (blockBuf dev) (nat (sint (lba * 2048))) 2048 of
             Inl e \<Rightarrow> Inl e
           | Inr s \<Rightarrow>
               (case mem_write outPtr 0 s of
                  Inl e \<Rightarrow> Inl e
                | Inr out \<Rightarrow> Inr (dev, out, True)))"

text \<open>
  The fetch of a unit, after the test of the sentinel: seek, read
  \<open>table[block].size\<close> bytes into \<open>tempBuf\<close> (a compressed unit) or \<open>blockBuf\<close>
  (a raw one), decrypt unless bit 2 of the flags is set, decompress a compressed
  unit into \<open>blockBuf\<close>, copy the block out.  A short read returns \<^verbatim>\<open>true\<close> for
  the last unit and \<^verbatim>\<open>false\<close> otherwise, a wrong decompressed length returns
  \<^verbatim>\<open>false\<close>; neither stores anything in \<open>outPtr\<close>.  The count of the read is
  the \<^verbatim>\<open>int\<close> \<open>size\<close> converted to \<^verbatim>\<open>size_t\<close>: a negative size is a count
  that \<open>fread\<close> refuses, and so a short read.
\<close>

definition ReadBlock_fetch ::
  "npdrm_ports \<Rightarrow> NPDRMDemoBlockDevice \<Rightarrow> s32 \<Rightarrow> s32 \<Rightarrow> u8 list \<Rightarrow>
   fault + (NPDRMDemoBlockDevice \<times> u8 list \<times> bool)" where
  "ReadBlock_fetch p dev block lba outPtr =
     (let e = table dev ! nat (sint block);
          f1 = fseek_set (npdrm_f dev) (uint (psarOffset dev + ti_offset e));
          small = (sint (ti_size e) < sint (blockSize dev));
          count = unat (scast (ti_size e) :: u64);
          (d, f2) = fread f1 count
      in case mem_write (if small then tempBuf dev else blockBuf dev) 0 d of
           Inl err \<Rightarrow> Inl err
         | Inr rb \<Rightarrow>
             let dev1 = (if small then dev\<lparr>npdrm_f := f2, tempBuf := rb\<rparr>
                         else dev\<lparr>npdrm_f := f2, blockBuf := rb\<rparr>)
             in if length d \<noteq> count
                then Inr (dev1, outPtr, block = npdrm_numBlocks dev - 1)
                else
                  let rb1 = (if ti_flag e AND 4 = 0
                             then overlay (sceDrmBBCipher p (hkey dev) (vkey dev)
                                             (drop_bit 4 (ti_offset e)) (take count rb)) rb
                             else rb);
                      dev2 = (if small then dev1\<lparr>tempBuf := rb1\<rparr> else dev1\<lparr>blockBuf := rb1\<rparr>)
                  in if small
                     then
                       let (lzsize, produced) = lzrc_decompress p (take count rb1) 0x00100000
                       in case mem_write (blockBuf dev2) 0 (take 0x00100000 produced) of
                            Inl err \<Rightarrow> Inl err
                          | Inr bb \<Rightarrow>
                              if lzsize \<noteq> sint (blockSize dev)
                              then Inr (dev2\<lparr>blockBuf := bb\<rparr>, outPtr, False)
                              else ReadBlock_copy (dev2\<lparr>blockBuf := bb\<rparr>) lba outPtr
                     else ReadBlock_copy dev2 lba outPtr)"

text \<open>
  \<^verbatim>\<open>NPDRMDemoBlockDevice::ReadBlock\<close>.  All of \<open>lba\<close>, \<open>block\<close>, \<open>blockLBAs\<close> and
  \<open>currentBlock\<close> are \<^verbatim>\<open>int\<close>; \<^verbatim>\<open>/\<close> and \<^verbatim>\<open>%\<close> truncate towards zero.
  \<open>currentBlock\<close> is assigned before the table is looked at.
\<close>

definition NPDRM_ReadBlock ::
  "npdrm_ports \<Rightarrow> NPDRMDemoBlockDevice \<Rightarrow> s32 \<Rightarrow> u8 list \<Rightarrow>
   fault + (NPDRMDemoBlockDevice \<times> u8 list \<times> bool)" where
  "NPDRM_ReadBlock p dev blockNumber outPtr =
     (let lba = blockNumber - currentBlock dev
      in if 0 \<le> sint lba \<and> sint lba < sint (blockLBAs dev)
         then ReadBlock_copy dev lba outPtr
         else if blockLBAs dev = 0 \<or> (blockNumber = - 0x80000000 \<and> blockLBAs dev = - 1)
         then Inl DivisionTrap
         else
           let block = (word_of_int (sint blockNumber sdiv sint (blockLBAs dev)) :: s32);
               lba' = (word_of_int (sint blockNumber smod sint (blockLBAs dev)) :: s32);
               dev1 = dev\<lparr>currentBlock := block * blockLBAs dev\<rparr>
           in if \<not> (0 \<le> sint block \<and> nat (sint block) < length (table dev))
              then Inl OutOfBounds
              else if ti_unk_1c (table dev ! nat (sint block)) \<noteq> 0
              then Inr (dev1, outPtr, block = npdrm_numBlocks dev - 1)
              else ReadBlock_fetch p dev1 block lba' outPtr)"

section \<open>The factory\<close>

datatype BlockDevice =
  CISO CISOFileBlockDevice
| NPDRM NPDRMDemoBlockDevice
| Plain FileBlockDevice

definition bytes_of :: "string \<Rightarrow> u8 list" where
  "bytes_of s = map of_char s"

text \<open>
  \<^verbatim>\<open>constructBlockDevice\<close>.  \<^verbatim>\<open>File::OpenCFile\<close> is the lookup of the name in the
  files that can be opened; it gives a stream at position 0, or the null pointer.
  The literal \<^verbatim>\<open>"\x00PBP"\<close> is the bytes 0, \<open>P\<close>, \<open>B\<close>, \<open>P\<close>.
\<close>

definition constructBlockDevice ::
  "npdrm_ports \<Rightarrow> junk \<Rightarrow> (string \<rightharpoonup> u8 list) \<Rightarrow> string \<Rightarrow> (fault + BlockDevice) option" where
  "constructBlockDevice p j fs filename =
     (case fs filename of
        None \<Rightarrow> None
      | Some bytes \<Rightarrow>
          let f0 = \<lparr>content = bytes, pos = 0\<rparr>;
              (d, f1) = fread f0 4;
              buffer = overlay d (uninit j ''buffer'' 4);
              size' = length d;
              f2 = fseek_set f1 0
          in if buffer = bytes_of ''CISO'' \<and> size' = 4
             then Some (map_sum id CISO (CISOFileBlockDevice j f2))
             else if buffer = 0 # bytes_of ''PBP'' \<and> size' = 4
             then Some (map_sum id NPDRM (NPDRMDemoBlockDevice p j f2))
             else Some (Inr (Plain (FileBlockDevice f2))))"


section \<open>Reading a sequence of blocks\<close>


section \<open>Three small images\<close>

text \<open>
  Images on which the devices are run.  Uninitialised memory holds the byte
  \<open>0xCD\<close>.  The mock decompressor expands the first byte \<open>x\<close> of its input to
  \<open>avail_out\<close> bytes, 2048 bytes \<open>x\<close> and then bytes \<open>x + 1\<close>, and reports
  \<^verbatim>\<open>Z_STREAM_END\<close>; on empty input it reports \<^verbatim>\<open>Z_DATA_ERROR\<close>.  The mock
  cipher is the identity, the mock key is 16 zero bytes.
\<close>

definition demo_junk :: junk where
  "demo_junk = (\<lambda>name i. 0xCD)"

definition demo_zlib :: zlib where
  "demo_zlib = \<lparr>inflateInit2 = 0,
     inflate = (\<lambda>inp n. if inp = [] then (- 3, [])
                else (1, replicate (min n 2048) (hd inp) @ replicate (n - 2048) (hd inp + 1)))\<rparr>"

definition demo_ports :: npdrm_ports where
  "demo_ports = \<lparr>bbmac_getkey = (\<lambda>d m. replicate 16 0),
     bbcipher = (\<lambda>hk vk seed d. d),
     lzrc_decompress = (\<lambda>d n. (0, []))\<rparr>"

text \<open>
  A CISO image of six blocks in three frames of 4096 bytes: frames 0 and 1 are
  compressed (8 bytes each), frame 2 is stored uncompressed.  \<open>cso_dev\<close> is the
  device that the constructor builds from it, \<open>cso_dev1\<close> the device after the
  first read of block 0, \<open>cso_dev2\<close> the device after a following read of block 2.
\<close>

definition cso_header :: "u8 list" where
  "cso_header = [0x43, 0x49, 0x53, 0x4F, 0x18, 0, 0, 0, 0, 0x30, 0, 0, 0, 0, 0, 0,
                 0, 0x10, 0, 0, 1, 0, 0, 0]"

definition cso_index :: "u8 list" where
  "cso_index = [0x28, 0, 0, 0, 0x30, 0, 0, 0, 0x38, 0, 0, 0x80, 0x38, 0x10, 0, 0]"

definition cso_image :: "u8 list" where
  "cso_image = cso_header @ cso_index @ replicate 8 0xA0 @ replicate 8 0xB0 @ replicate 4096 0x33"

definition cso_dev :: CISOFileBlockDevice where
  "cso_dev = \<lparr>ciso_f = \<lparr>content = cso_image, pos = 0x28\<rparr>,
     index = [0x28, 0x30, 0x80000038, 0x1038],
     readBuffer = uninit demo_junk ''readBuffer'' 4097,
     zlibBuffer = uninit demo_junk ''zlibBuffer'' 4097,
     zlibBufferFrame = 3, indexShift = 0, blockShift = 1, frameSize = 0x1000,
     ciso_numBlocks = 6, numFrames = 3\<rparr>"

definition cso_dev1 :: CISOFileBlockDevice where
  "cso_dev1 = cso_dev\<lparr>ciso_f := \<lparr>content = cso_image, pos = 0x30\<rparr>,
     readBuffer := replicate 8 0xA0 @ replicate 4089 0xCD,
     zlibBuffer := replicate 2048 0xA0 @ replicate 2048 0xA1 @ replicate 1 0xCD,
     zlibBufferFrame := 0\<rparr>"


text \<open>
  An NPDRM image of three units of two blocks each: unit 0 is stored raw and
  unencrypted (2048 bytes \<open>0x11\<close>, then 2048 bytes \<open>0x22\<close>), units 1 and 2 are
  sentinel entries.  \<open>demo_dev\<close> is the device that the constructor builds from
  it, \<open>demo_dev1\<close> the device after a read of block 2.
\<close>

definition demo_header :: "u8 list" where
  "demo_header = replicate 12 0 @ [2, 0, 0, 0] @ replicate 0x44 0 @ [0, 0, 0, 0] @ replicate 12 0
     @ [5, 0, 0, 0] @ replicate 4 0 @ [0, 1, 0, 0] @ replicate 0x90 0"

definition demo_table :: "u8 list" where
  "demo_table = replicate 16 0 @ [0x60, 1, 0, 0] @ [0, 0x10, 0, 0] @ [4, 0, 0, 0] @ [0, 0, 0, 0]
     @ replicate 28 0 @ [1, 0, 0, 0]
     @ replicate 28 0 @ [1, 0, 0, 0]"

definition demo_image :: "u8 list" where
  "demo_image = [0, 0x50, 0x42, 0x50] @ replicate 0x20 0 @ [0x28, 0, 0, 0] @ demo_header @ demo_table
     @ replicate 2048 0x11 @ replicate 2048 0x22"

definition demo_dev :: NPDRMDemoBlockDevice where
  "demo_dev = \<lparr>npdrm_f = \<lparr>content = demo_image, pos = 0x188\<rparr>,
     lbaSize = 6, psarOffset = 0x28, blockSize = 4096, blockLBAs = 2, npdrm_numBlocks = 3,
     vkey = replicate 16 0, hkey = replicate 16 0,
     table = [(0, 0, 0, 0, 0x160, 0x1000, 4, 0), (0, 0, 0, 0, 0, 0, 0, 1), (0, 0, 0, 0, 0, 0, 0, 1)],
     currentBlock = - 1,
     blockBuf = uninit demo_junk ''blockBuf'' 4096,
     tempBuf = uninit demo_junk ''tempBuf'' 4096\<rparr>"

definition demo_dev1 :: NPDRMDemoBlockDevice where
  "demo_dev1 = demo_dev\<lparr>currentBlock := 2\<rparr>"

text \<open>A plain image of two blocks and 100 bytes more, and the files that can be opened.\<close>

definition iso_image :: "u8 list" where
  "iso_image = replicate 2048 0x01 @ replicate 2048 0x02 @ replicate 100 0x03"

definition demo_fs :: "string \<rightharpoonup> u8 list" where
  "demo_fs = [''game.iso'' \<mapsto> iso_image, ''game.cso'' \<mapsto> cso_image, ''demo.pbp'' \<mapsto> demo_image]"

section \<open>Theorems\<close>

subsection \<open>Buffers, streams and words\<close>

lemma xor_twice: "((a::u32) XOR k) XOR k = a"
  by (simp add: xor.assoc)

lemma memset_full: "length buf = n \<Longrightarrow> memset buf 0 c n = Inr (replicate n c)"
  by (simp add: memset_def mem_write_def)

lemma mem_write_full: "length d = length buf \<Longrightarrow> mem_write buf 0 d = Inr d"
  by (simp add: mem_write_def)




lemma fread_length: "fread f n = (d, f') \<Longrightarrow> length d \<le> n"
  by (auto simp: fread_def Let_def split: if_splits)

lemma fread_small:
  "n < 2 ^ 63 \<Longrightarrow>
   fread f n = (take n (drop (pos f) (content f)),
                f\<lparr>pos := pos f + length (take n (drop (pos f) (content f)))\<rparr>)"
  by (simp add: fread_def Let_def)

lemma fread_at:
  assumes "content f = a @ d @ b" and "pos f = length a" and "length d = n" and "n < 2 ^ 63"
  shows "fread f n = (d, f\<lparr>pos := length a + n\<rparr>)"
  using assms by (simp add: fread_small)

lemma length_uninit: "length (uninit j name n) = n"
  by (simp add: uninit_def)

lemma demo_uninit: "uninit demo_junk name n = replicate n 0xCD"
  by (simp add: uninit_def demo_junk_def map_replicate_const)

lemma overlay_full: "length d = length buf \<Longrightarrow> overlay d buf = d"
  by (simp add: overlay_def)

lemma split3: "take a xs @ take b (drop a xs) @ drop (a + b) xs = xs"
  by (metis append.assoc append_take_drop_id take_add)

lemma le32_4 [simp]:
  "le32 (a # b # c # d # r) =
     ucast a OR push_bit 8 (ucast b OR push_bit 8 (ucast c OR push_bit 8 (ucast d)))"
  by (simp add: le32_def)

lemma le64_8 [simp]:
  "le64 (a # b # c # d # e # f # g # h # r) =
     ucast a OR push_bit 8 (ucast b OR push_bit 8 (ucast c OR push_bit 8 (ucast d OR push_bit 8
       (ucast e OR push_bit 8 (ucast f OR push_bit 8 (ucast g OR push_bit 8 (ucast h)))))))"
  by (simp add: le64_def)

lemma le32_zeros: "4 \<le> n \<Longrightarrow> le32 (replicate n 0 @ xs) = 0"
proof -
  assume "4 \<le> n"
  then have n: "n = Suc (Suc (Suc (Suc (n - 4))))"
    by arith
  have "le32 (replicate (Suc (Suc (Suc (Suc (n - 4))))) 0 @ xs) = 0"
    by simp
  then show ?thesis using n by simp
qed

lemma upt3: "[0..<3] = [0, 1, 2]"
  by (simp add: upt_rec)

lemma upt4: "[0..<4] = [0, 1, 2, 3]"
  by (simp add: upt_rec)

lemma bytes_of_CISO: "bytes_of ''CISO'' = [0x43, 0x49, 0x53, 0x4F]"
  by (simp add: bytes_of_def)

lemma bytes_of_PBP: "bytes_of ''PBP'' = [0x50, 0x42, 0x50]"
  by (simp add: bytes_of_def)

text \<open>A non-negative \<^verbatim>\<open>int\<close> is its unsigned reading, below \<open>2 ^ 31\<close>.\<close>

lemma sint_nonneg_uint:
  assumes "0 \<le> sint (n :: s32)"
  shows "sint n = uint n" and "uint n < 2 ^ 31"
proof -
  have nb: "\<not> bit (uint n) 31"
    using assms bit_last_iff [of n] by (simp add: bit_uint_iff)
  have a: "signed_take_bit 31 (uint n) = take_bit 31 (uint n)"
    using nb by (simp add: signed_take_bit_eq_if_positive)
  have b: "sint n = signed_take_bit 31 (uint n)"
    by (simp add: sint_uint)
  have "take_bit 32 (uint n) = uint n"
    by (simp add: take_bit_int_eq_self_iff uint_lt2p [where 'a=32, simplified])
  moreover have "take_bit 32 (uint n) = take_bit 31 (uint n)"
    using nb by (simp add: take_bit_Suc_from_most [of 31 "uint n", simplified])
  ultimately have c: "take_bit 31 (uint n) = uint n"
    by simp
  show "sint n = uint n"
    using a b c by simp
  have "take_bit 31 (uint n) < 2 ^ 31"
    by (rule take_bit_int_less_exp)
  then show "uint n < 2 ^ 31"
    using c by simp
qed

text \<open>The byte offset of a block with a non-negative number does not wrap.\<close>

lemma block_offset:
  assumes "0 \<le> sint (n :: s32)"
  shows "sint ((scast n :: u64) * 2048) = int (unat n * 2048)"
proof -
  have s: "sint (scast n :: u64) = sint n"
    by (simp add: sint_up_scast is_up)
  have u: "sint n = uint n" "uint n < 2 ^ 31" "0 \<le> uint n"
    using sint_nonneg_uint [OF assms] by simp_all
  have r: "sint n * 2048 < 2 ^ 63" "- (2 ^ 63) \<le> sint n * 2048"
  proof -
    have "sint n * 2048 < 2147483648 * 2048" "0 \<le> sint n * 2048"
      using assms u(1,2) by simp_all
    then show "sint n * 2048 < 2 ^ 63" "- (2 ^ 63) \<le> sint n * 2048"
      by simp_all
  qed
  have "sint ((scast n :: u64) * 2048) = signed_take_bit 63 (sint n * 2048)"
    by (simp add: sint_word_mult s)
  also have "\<dots> = sint n * 2048"
    using r by (simp add: signed_take_bit_int_eq_self)
  finally show ?thesis
    using u by (simp add: nat_mult_distrib)
qed

subsection \<open>The plain device and the factory\<close>

lemma FileBlockDevice_filesize: "filesize (FileBlockDevice file) = length (content (file_f (FileBlockDevice file)))"
  by (simp add: FileBlockDevice_def Let_def fseek_set_def)


lemma iso_dev: "FileBlockDevice \<lparr>content = iso_image, pos = 0\<rparr> =
    \<lparr>file_f = \<lparr>content = iso_image, pos = 0\<rparr>, filesize = 4196\<rparr>"
  by (simp add: FileBlockDevice_def Let_def fseek_set_def iso_image_def)

lemma length_iso_image: "length iso_image = 4196"
  by (simp add: iso_image_def)

lemma iso_magic: "take 4 iso_image = [0x01, 0x01, 0x01, 0x01]"
proof -
  have "replicate 4 (0x01 :: u8) = [0x01, 0x01, 0x01, 0x01]"
    by (simp add: eval_nat_numeral)
  then show ?thesis
    by (simp add: iso_image_def)
qed

lemma iso_block1: "take 2048 (drop 2048 iso_image) = replicate 2048 0x02"
  by (simp add: iso_image_def)


subsection \<open>The CISO device\<close>

text \<open>The constructor, run symbolically.\<close>

lemma CISO_ctor_exec:
  assumes "fread file 24 = (d, f1)"
    and "CISO_H_of_bytes (overlay d (uninit j ''hdr'' 24)) = hdr"
    and "block_size hdr \<noteq> 0"
    and "blockShift_loop (block_size hdr) 0 = bs"
    and "ucast ((total_bytes hdr + ucast (block_size hdr) - 1) div ucast (block_size hdr)) = nf"
    and "ucast (total_bytes hdr div 2048) = nb"
    and "unat (block_size hdr + push_bit (unat (align hdr)) 1) = bsz"
    and "fread f1 (4 * unat (nf + 1)) = (di, f2)"
    and "(if length di div 4 \<noteq> unat (nf + 1) then replicate (unat (nf + 1)) 0
          else map (\<lambda>i. le32 (drop (4 * i) di)) [0..<unat (nf + 1)]) = ix"
  shows "CISOFileBlockDevice j file =
     Inr \<lparr>ciso_f = f2, index = ix, readBuffer = uninit j ''readBuffer'' bsz,
          zlibBuffer = uninit j ''zlibBuffer'' bsz, zlibBufferFrame = nf,
          indexShift = align hdr, blockShift = bs, frameSize = block_size hdr,
          ciso_numBlocks = nb, numFrames = nf\<rparr>"
proof -
  have nz: "(block_size hdr = 0) = False"
    using assms(3) by simp
  show ?thesis
    by (simp only: CISOFileBlockDevice_def Let_def assms(1,2) assms(4-9) prod.case nz if_False)
qed

lemma blockShift_4096: "blockShift_loop 0x1000 0 = 1"
  by (simp add: blockShift_loop.simps [of "0x1000"] blockShift_loop.simps [of "0x800"])

text \<open>The constructor on the CISO image.\<close>

lemma cso_ctor: "CISOFileBlockDevice demo_junk \<lparr>content = cso_image, pos = 0\<rparr> = Inr cso_dev"
proof -
  let ?hdr = "\<lparr>magic = [0x43, 0x49, 0x53, 0x4F], header_size = 0x18, total_bytes = 0x3000,
      block_size = 0x1000, ver = 1, align = 0, rsv_06 = [0, 0]\<rparr>"
  have 1: "fread \<lparr>content = cso_image, pos = 0\<rparr> 24 = (cso_header, \<lparr>content = cso_image, pos = 24\<rparr>)"
    using fread_at [of "\<lparr>content = cso_image, pos = 0\<rparr>" "[]" cso_header
        "cso_index @ replicate 8 0xA0 @ replicate 8 0xB0 @ replicate 4096 0x33" 24]
    by (simp add: cso_image_def cso_header_def)
  have 2: "CISO_H_of_bytes (overlay cso_header (uninit demo_junk ''hdr'' 24)) = ?hdr"
    by (simp add: overlay_full length_uninit cso_header_def CISO_H_of_bytes_def)
  have 3: "block_size ?hdr \<noteq> 0"
    by simp
  have 4: "blockShift_loop (block_size ?hdr) 0 = 1"
    by (simp add: blockShift_4096)
  have 5: "ucast ((total_bytes ?hdr + ucast (block_size ?hdr) - 1) div ucast (block_size ?hdr)) = (3 :: u32)"
    by simp
  have 6: "ucast (total_bytes ?hdr div 2048) = (6 :: u32)"
    by simp
  have 7: "unat (block_size ?hdr + push_bit (unat (align ?hdr)) 1) = 4097"
    by simp
  have 8: "fread \<lparr>content = cso_image, pos = 24\<rparr> (4 * unat ((3 :: u32) + 1)) =
       (cso_index, \<lparr>content = cso_image, pos = 0x28\<rparr>)"
    using fread_at [of "\<lparr>content = cso_image, pos = 24\<rparr>" cso_header cso_index
        "replicate 8 0xA0 @ replicate 8 0xB0 @ replicate 4096 0x33" 16]
    by (simp add: cso_image_def cso_header_def cso_index_def)
  have 9: "(if length cso_index div 4 \<noteq> unat ((3 :: u32) + 1) then replicate (unat ((3 :: u32) + 1)) 0
          else map (\<lambda>i. le32 (drop (4 * i) cso_index)) [0..<unat ((3 :: u32) + 1)]) =
          [0x28, 0x30, 0x80000038, 0x1038]"
    by (simp add: cso_index_def upt4)
  show ?thesis
    using CISO_ctor_exec [OF 1 2 3 4 5 6 7 8 9] by (simp add: cso_dev_def)
qed

text \<open>What each branch of \<^verbatim>\<open>ReadBlock\<close> returns.\<close>

lemma ReadBlock_plain_written:
  assumes "length outPtr = 2048"
    and "fread (fseek_set (ciso_f dev) (sint (rp + ucast co))) 2048 = (d, f')"
  shows "ReadBlock_plain dev rp co outPtr =
           Inr (dev\<lparr>ciso_f := f'\<rparr>, d @ replicate (2048 - length d) 0, True, 0)"
proof -
  have "length d \<le> 2048"
    using assms(2) by (rule fread_length)
  then show ?thesis
    using assms by (auto simp: ReadBlock_plain_def GetBlockSize_def Let_def mem_write_def memset_def)
qed

lemma ReadBlock_plain_result:
  assumes "length outPtr = 2048"
  shows "\<exists>f' out'. ReadBlock_plain dev rp co outPtr = Inr (dev\<lparr>ciso_f := f'\<rparr>, out', True, 0)
           \<and> length out' = 2048"
proof -
  obtain d f2 where fr: "fread (fseek_set (ciso_f dev) (sint (rp + ucast co))) 2048 = (d, f2)"
    by (cases "fread (fseek_set (ciso_f dev) (sint (rp + ucast co))) 2048") auto
  have "length d \<le> 2048"
    using fr by (rule fread_length)
  then have "ReadBlock_plain dev rp co outPtr =
        Inr (dev\<lparr>ciso_f := f2\<rparr>, d @ replicate (2048 - length d) 0, True, 0)
      \<and> length (d @ replicate (2048 - length d) 0) = 2048"
    using ReadBlock_plain_written [OF assms fr] by simp
  then show ?thesis
    by blast
qed



lemma ReadBlock_cached_result:
  assumes "ReadBlock_cached dev co outPtr = Inr (dev', out', ok, n)"
  shows "dev' = dev \<and> ok \<and> n = 0"
  using assms by (auto simp: ReadBlock_cached_def split: sum.splits)

lemma ReadBlock_inflate_result:
  assumes "ReadBlock_inflate z dev fr rp rs co outPtr = Inr (dev', out', ok, n)"
  shows "index dev' = index dev \<and> blockShift dev' = blockShift dev
         \<and> indexShift dev' = indexShift dev \<and> frameSize dev' = frameSize dev
         \<and> ciso_numBlocks dev' = ciso_numBlocks dev
         \<and> (inflateInit2 z = Z_OK \<longrightarrow> n = 1)
         \<and> (ok \<longrightarrow> inflateInit2 z = Z_OK)
         \<and> (ok \<and> unat (frameSize dev) \<noteq> GetBlockSize \<longrightarrow> n = 1 \<and> zlibBufferFrame dev' = fr)"
  using assms
  by (auto simp: ReadBlock_inflate_def Let_def split: sum.splits prod.splits if_splits)

text \<open>
  When \<^verbatim>\<open>inflateInit2\<close> fails, the call returns \<^verbatim>\<open>false\<close> with the caller's
  buffer as it was: this return has no \<^verbatim>\<open>memset\<close>.
\<close>

lemma ReadBlock_inflate_init_failed:
  assumes "inflateInit2 z \<noteq> Z_OK"
    and "ReadBlock_inflate z dev fr rp rs co outPtr = Inr (dev', out', ok, n)"
  shows "out' = outPtr \<and> \<not> ok \<and> n = 0"
  using assms
  by (auto simp: ReadBlock_inflate_def Let_def split: sum.splits prod.splits)






lemma blockShift_loop_bound:
  "unat i < 2048 * 2 ^ k \<Longrightarrow> blockShift_loop i n \<le> n + k"
proof (induction k arbitrary: i n)
  case 0
  then have "\<not> i > 0x800"
    by (simp add: word_less_nat_alt)
  then show ?case
    by (simp add: blockShift_loop.simps [of i])
next
  case (Suc k)
  show ?case
  proof (cases "i > 0x800")
    case True
    have "unat (drop_bit 1 i) = unat i div 2"
      unfolding unat_drop_bit_eq by (simp add: drop_bit_eq_div)
    then have "unat (drop_bit 1 i) < 2048 * 2 ^ k"
      using Suc.prems by simp
    then have "blockShift_loop (drop_bit 1 i) (n + 1) \<le> n + 1 + k"
      by (rule Suc.IH)
    then show ?thesis
      using True by (simp add: blockShift_loop.simps [of i])
  next
    case False
    then show ?thesis
      by (simp add: blockShift_loop.simps [of i])
  qed
qed

lemma blockShift_loop_21: "blockShift_loop i 0 \<le> 21"
proof -
  have "unat i < 2 ^ 32"
    using unsigned_less [of i, where 'a = nat] by simp
  then have "unat i < 2048 * 2 ^ 21"
    by simp
  then show ?thesis
    using blockShift_loop_bound [of i 21 0] by simp
qed

lemma CISO_ctor_blockShift:
  assumes "CISOFileBlockDevice j file = Inr dev"
  shows "blockShift dev \<le> 21"
proof -
  obtain d f1 where 1: "fread file 24 = (d, f1)"
    by (cases "fread file 24") auto
  define hdr where "hdr = CISO_H_of_bytes (overlay d (uninit j ''hdr'' 24))"
  have 2: "CISO_H_of_bytes (overlay d (uninit j ''hdr'' 24)) = hdr"
    by (simp add: hdr_def)
  show ?thesis
  proof (cases "block_size hdr = 0")
    case True
    then have z: "(block_size hdr = 0) = True"
      by simp
    have "CISOFileBlockDevice j file = Inl DivisionTrap"
      by (simp only: CISOFileBlockDevice_def Let_def 1 prod.case 2 z if_True)
    then show ?thesis
      using assms by simp
  next
    case False
    define nf :: u32 where
      "nf = ucast ((total_bytes hdr + ucast (block_size hdr) - 1) div ucast (block_size hdr))"
    obtain di f2 where 8: "fread f1 (4 * unat (nf + 1)) = (di, f2)"
      by (cases "fread f1 (4 * unat (nf + 1))") auto
    have "dev = \<lparr>ciso_f = f2,
        index = (if length di div 4 \<noteq> unat (nf + 1) then replicate (unat (nf + 1)) 0
                 else map (\<lambda>i. le32 (drop (4 * i) di)) [0..<unat (nf + 1)]),
        readBuffer = uninit j ''readBuffer'' (unat (block_size hdr + push_bit (unat (align hdr)) 1)),
        zlibBuffer = uninit j ''zlibBuffer'' (unat (block_size hdr + push_bit (unat (align hdr)) 1)),
        zlibBufferFrame = nf, indexShift = align hdr,
        blockShift = blockShift_loop (block_size hdr) 0, frameSize = block_size hdr,
        ciso_numBlocks = ucast (total_bytes hdr div 2048), numFrames = nf\<rparr>"
      using CISO_ctor_exec [OF 1 2 False refl nf_def [symmetric] refl refl 8 refl] assms
      by (simp only: sum.inject)
    then have bs: "blockShift dev = blockShift_loop (block_size hdr) 0"
      by (simp only: CISOFileBlockDevice.select_convs)
    show ?thesis
      unfolding bs by (rule blockShift_loop_21)
  qed
qed


text \<open>Reads on the CISO image.\<close>

lemma cso_fields:
  "ciso_numBlocks cso_dev = 6" "zlibBufferFrame cso_dev = 3" "indexShift cso_dev = 0"
  "blockShift cso_dev = 1" "frameSize cso_dev = 0x1000"
  "index cso_dev ! 0 = 0x28" "index cso_dev ! Suc 0 = 0x30" "index cso_dev ! 1 = 0x30"
  "index cso_dev ! 2 = 0x80000038" "index cso_dev ! 3 = 0x1038" "length (index cso_dev) = 4"
  by (simp_all add: cso_dev_def)

lemma cso_fields1:
  "ciso_numBlocks cso_dev1 = 6" "zlibBufferFrame cso_dev1 = 0" "indexShift cso_dev1 = 0"
  "blockShift cso_dev1 = 1" "frameSize cso_dev1 = 0x1000"
  "index cso_dev1 ! 0 = 0x28" "index cso_dev1 ! Suc 0 = 0x30" "index cso_dev1 ! 1 = 0x30"
  "index cso_dev1 ! 2 = 0x80000038" "index cso_dev1 ! 3 = 0x1038" "length (index cso_dev1) = 4"
  by (simp_all add: cso_dev1_def cso_dev_def)

lemma cso_frames:
  "frameNumber_of cso_dev 0 = 0" "frameNumber_of cso_dev 1 = 0" "frameNumber_of cso_dev 2 = 1"
  "frameNumber_of cso_dev 4 = 2"
  "frameNumber_of cso_dev1 0 = 0" "frameNumber_of cso_dev1 1 = 0" "frameNumber_of cso_dev1 2 = 1"
  "frameNumber_of cso_dev1 4 = 2"
  by (simp_all add: frameNumber_of_def cso_fields cso_fields1)

lemma cso_fread:
  "fread \<lparr>content = cso_image, pos = 0x28\<rparr> 8 =
     (replicate 8 0xA0, \<lparr>content = cso_image, pos = 0x30\<rparr>)"
  "fread \<lparr>content = cso_image, pos = 0x30\<rparr> 8 =
     (replicate 8 0xB0, \<lparr>content = cso_image, pos = 0x38\<rparr>)"
  "fread \<lparr>content = cso_image, pos = 0x38\<rparr> 2048 =
     (replicate 2048 0x33, \<lparr>content = cso_image, pos = 0x838\<rparr>)"
proof -
  show "fread \<lparr>content = cso_image, pos = 0x28\<rparr> 8 =
     (replicate 8 0xA0, \<lparr>content = cso_image, pos = 0x30\<rparr>)"
    using fread_at [of "\<lparr>content = cso_image, pos = 0x28\<rparr>" "cso_header @ cso_index"
        "replicate 8 0xA0" "replicate 8 0xB0 @ replicate 4096 0x33" 8]
    by (simp add: cso_image_def cso_header_def cso_index_def)
  show "fread \<lparr>content = cso_image, pos = 0x30\<rparr> 8 =
     (replicate 8 0xB0, \<lparr>content = cso_image, pos = 0x38\<rparr>)"
    using fread_at [of "\<lparr>content = cso_image, pos = 0x30\<rparr>" "cso_header @ cso_index @ replicate 8 0xA0"
        "replicate 8 0xB0" "replicate 4096 0x33" 8]
    by (simp add: cso_image_def cso_header_def cso_index_def)
  have "replicate 4096 (0x33 :: u8) = replicate 2048 0x33 @ replicate 2048 0x33"
    by (simp add: replicate_add [symmetric])
  then show "fread \<lparr>content = cso_image, pos = 0x38\<rparr> 2048 =
     (replicate 2048 0x33, \<lparr>content = cso_image, pos = 0x838\<rparr>)"
    using fread_at [of "\<lparr>content = cso_image, pos = 0x38\<rparr>"
        "cso_header @ cso_index @ replicate 8 0xA0 @ replicate 8 0xB0"
        "replicate 2048 0x33" "replicate 2048 0x33" 2048]
    by (simp add: cso_image_def cso_header_def cso_index_def)
qed


lemma cso_read4:
  "CISO_ReadBlock demo_zlib cso_dev1 4 (replicate 2048 0xA0) =
     Inr (cso_dev1\<lparr>ciso_f := \<lparr>content = cso_image, pos = 0x838\<rparr>\<rparr>, replicate 2048 0x33, True, 0)"
proof -
  have p: "ReadBlock_plain cso_dev1 0x38 0 (replicate 2048 0xA0) =
     Inr (cso_dev1\<lparr>ciso_f := \<lparr>content = cso_image, pos = 0x838\<rparr>\<rparr>, replicate 2048 0x33, True, 0)"
    using ReadBlock_plain_written [of "replicate 2048 0xA0" cso_dev1 "0x38" 0 "replicate 2048 0x33"
        "\<lparr>content = cso_image, pos = 0x838\<rparr>"]
    by (simp add: cso_dev1_def cso_dev_def fseek_set_def cso_fread)
  show ?thesis
    by (simp add: CISO_ReadBlock_def cso_frames cso_fields1 Let_def compressedReadPos_of_def
         compressedOffset_of_def p)
qed
subsection \<open>The NPDRM device\<close>

text \<open>The constructor, run symbolically.\<close>

lemma NPDRM_ctor_cases:
  assumes "fread (fseek_set file 0x24) 4 = (d1, f2)"
    and "le32 (overlay d1 (uninit j ''psarOffset'' 4)) = po"
    and "fread (fseek_set f2 (uint po)) 256 = (d2, f4)"
    and "overlay d2 (uninit j ''np_header'' 256) = h"
    and "bbmac_getkey p (take 0xc0 h) (take 0x10 (drop 0xc0 h)) = vk"
    and "take 0x10 (drop 0xa0 h) = hk"
    and "take 0x40 h @ sceDrmBBCipher p hk vk 0 (take 0x60 (drop 0x40 h)) @ drop 0xa0 h = h'"
    and "le32 (drop 0x0c h') = bl"
    and "le32 (drop 0x64 h') - le32 (drop 0x54 h') + 1 = ls"
    and "(ls + bl - 1) div bl = nb"
    and "fread (fseek_set f4 (uint (po + le32 (drop 0x6c h')))) (unat (nb * 32)) = (d3, f6)"
    and "descramble_table (map (\<lambda>i. words8_of_bytes (drop (32 * i)
           (overlay d3 (uninit j ''table'' (32 * unat nb))))) [0..<unat nb]) = tb"
  shows "NPDRMDemoBlockDevice p j file =
     (if bl = 0 then Inl DivisionTrap
      else if sint (bl * 2048) < 0 then Inl BadAlloc
      else Inr \<lparr>npdrm_f = f6, lbaSize = ls, psarOffset = po, blockSize = bl * 2048, blockLBAs = bl,
          npdrm_numBlocks = nb, vkey = vk, hkey = hk, table = tb, currentBlock = - 1,
          blockBuf = uninit j ''blockBuf'' (nat (sint (bl * 2048))),
          tempBuf = uninit j ''tempBuf'' (nat (sint (bl * 2048)))\<rparr>)"
  by (simp only: NPDRMDemoBlockDevice_def Let_def assms prod.case cong: if_cong)

text \<open>Every device that the constructor returns has \<open>currentBlock = -1\<close>.\<close>

lemma NPDRM_ctor_currentBlock:
  assumes "NPDRMDemoBlockDevice p j file = Inr dev"
  shows "currentBlock dev = - 1"
proof -
  obtain d1 f2 where 1: "fread (fseek_set file 0x24) 4 = (d1, f2)"
    by (cases "fread (fseek_set file 0x24) 4") auto
  define po where "po = le32 (overlay d1 (uninit j ''psarOffset'' 4))"
  obtain d2 f4 where 3: "fread (fseek_set f2 (uint po)) 256 = (d2, f4)"
    by (cases "fread (fseek_set f2 (uint po)) 256") auto
  define h where "h = overlay d2 (uninit j ''np_header'' 256)"
  define vk where "vk = bbmac_getkey p (take 0xc0 h) (take 0x10 (drop 0xc0 h))"
  define hk where "hk = take 0x10 (drop 0xa0 h)"
  define h' where
    "h' = take 0x40 h @ sceDrmBBCipher p hk vk 0 (take 0x60 (drop 0x40 h)) @ drop 0xa0 h"
  define bl where "bl = le32 (drop 0x0c h')"
  define ls where "ls = le32 (drop 0x64 h') - le32 (drop 0x54 h') + 1"
  define nb where "nb = (ls + bl - 1) div bl"
  obtain d3 f6 where
    11: "fread (fseek_set f4 (uint (po + le32 (drop 0x6c h')))) (unat (nb * 32)) = (d3, f6)"
    by (cases "fread (fseek_set f4 (uint (po + le32 (drop 0x6c h')))) (unat (nb * 32))") auto
  define tb where "tb = descramble_table (map (\<lambda>i. words8_of_bytes (drop (32 * i)
           (overlay d3 (uninit j ''table'' (32 * unat nb))))) [0..<unat nb])"
  show ?thesis
    using assms
    unfolding NPDRM_ctor_cases [OF 1 po_def [symmetric] 3 h_def [symmetric] vk_def [symmetric]
        hk_def [symmetric] h'_def [symmetric] bl_def [symmetric] ls_def [symmetric]
        nb_def [symmetric] 11 tb_def [symmetric]]
    by (auto split: if_splits)
qed

text \<open>
  On a device fresh from the constructor with units of two blocks or more, the
  read of block 0 is taken for a hit of the cache: \<open>lba = 0 - (-1) = 1\<close>.
\<close>

lemma NPDRM_fresh_block0_hits:
  assumes "NPDRMDemoBlockDevice p j file = Inr dev" and "1 < sint (blockLBAs dev)"
  shows "NPDRM_ReadBlock p' dev 0 outPtr = ReadBlock_copy dev 1 outPtr"
  using assms(2) NPDRM_ctor_currentBlock [OF assms(1)]
  by (simp add: NPDRM_ReadBlock_def Let_def)

text \<open>The constructor on the NPDRM image.\<close>

lemma length_demo_header: "length demo_header = 256"
  by (simp add: demo_header_def)

lemma length_demo_table: "length demo_table = 96"
  by (simp add: demo_table_def)

lemma demo_fread:
  "fread \<lparr>content = demo_image, pos = 0x24\<rparr> 4 =
     ([0x28, 0, 0, 0], \<lparr>content = demo_image, pos = 0x28\<rparr>)"
  "fread \<lparr>content = demo_image, pos = 0x28\<rparr> 256 =
     (demo_header, \<lparr>content = demo_image, pos = 0x128\<rparr>)"
  "fread \<lparr>content = demo_image, pos = 0x128\<rparr> 96 =
     (demo_table, \<lparr>content = demo_image, pos = 0x188\<rparr>)"
  "fread \<lparr>content = demo_image, pos = 0x188\<rparr> 4096 =
     (replicate 2048 0x11 @ replicate 2048 0x22, \<lparr>content = demo_image, pos = 0x1188\<rparr>)"
proof -
  show "fread \<lparr>content = demo_image, pos = 0x24\<rparr> 4 =
     ([0x28, 0, 0, 0], \<lparr>content = demo_image, pos = 0x28\<rparr>)"
    using fread_at [of "\<lparr>content = demo_image, pos = 0x24\<rparr>"
        "[0, 0x50, 0x42, 0x50] @ replicate 0x20 0" "[0x28, 0, 0, 0]"
        "demo_header @ demo_table @ replicate 2048 0x11 @ replicate 2048 0x22" 4]
    by (simp add: demo_image_def)
  show "fread \<lparr>content = demo_image, pos = 0x28\<rparr> 256 =
     (demo_header, \<lparr>content = demo_image, pos = 0x128\<rparr>)"
    using fread_at [of "\<lparr>content = demo_image, pos = 0x28\<rparr>"
        "[0, 0x50, 0x42, 0x50] @ replicate 0x20 0 @ [0x28, 0, 0, 0]" demo_header
        "demo_table @ replicate 2048 0x11 @ replicate 2048 0x22" 256]
    by (simp add: demo_image_def length_demo_header)
  show "fread \<lparr>content = demo_image, pos = 0x128\<rparr> 96 =
     (demo_table, \<lparr>content = demo_image, pos = 0x188\<rparr>)"
    using fread_at [of "\<lparr>content = demo_image, pos = 0x128\<rparr>"
        "[0, 0x50, 0x42, 0x50] @ replicate 0x20 0 @ [0x28, 0, 0, 0] @ demo_header" demo_table
        "replicate 2048 0x11 @ replicate 2048 0x22" 96]
    by (simp add: demo_image_def length_demo_header length_demo_table)
  show "fread \<lparr>content = demo_image, pos = 0x188\<rparr> 4096 =
     (replicate 2048 0x11 @ replicate 2048 0x22, \<lparr>content = demo_image, pos = 0x1188\<rparr>)"
    using fread_at [of "\<lparr>content = demo_image, pos = 0x188\<rparr>"
        "[0, 0x50, 0x42, 0x50] @ replicate 0x20 0 @ [0x28, 0, 0, 0] @ demo_header @ demo_table"
        "replicate 2048 0x11 @ replicate 2048 0x22" "[]" 4096]
    by (simp add: demo_image_def length_demo_header length_demo_table)
qed

lemma demo_header_fields:
  "le32 (drop 0x0c demo_header) = 2"
  "le32 (drop 0x54 demo_header) = 0"
  "le32 (drop 0x64 demo_header) = 5"
  "le32 (drop 0x6c demo_header) = 0x100"
  by (simp_all add: demo_header_def)

lemma demo_header_split:
  "take 0x40 demo_header @ take 0x60 (drop 0x40 demo_header) @ drop 0xa0 demo_header = demo_header"
  using split3 [of "0x40" demo_header "0x60"] by simp

lemma demo_cipher: "sceDrmBBCipher demo_ports hk vk seed d = d"
  by (simp add: sceDrmBBCipher_def demo_ports_def overlay_def)

lemma demo_hkey: "take 0x10 (drop 0xa0 demo_header) = replicate 16 0"
  by (simp add: demo_header_def)

lemma demo_table_entries:
  "words8_of_bytes demo_table = (0, 0, 0, 0, 0x160, 0x1000, 4, 0)"
  "words8_of_bytes (drop 32 demo_table) = (0, 0, 0, 0, 0, 0, 0, 1)"
  "words8_of_bytes (drop 64 demo_table) = (0, 0, 0, 0, 0, 0, 0, 1)"
  by (simp_all add: demo_table_def words8_of_bytes_def le32_zeros)

lemma demo_ctor:
  "NPDRMDemoBlockDevice demo_ports demo_junk \<lparr>content = demo_image, pos = 0\<rparr> = Inr demo_dev"
proof -
  have 1: "fread (fseek_set \<lparr>content = demo_image, pos = 0\<rparr> 0x24) 4 =
        ([0x28, 0, 0, 0], \<lparr>content = demo_image, pos = 0x28\<rparr>)"
    by (simp add: fseek_set_def demo_fread)
  have 2: "le32 (overlay [0x28, 0, 0, 0] (uninit demo_junk ''psarOffset'' 4)) = 0x28"
    by (simp add: overlay_full length_uninit)
  have 3: "fread (fseek_set \<lparr>content = demo_image, pos = 0x28\<rparr> (uint (0x28 :: u32))) 256 =
        (demo_header, \<lparr>content = demo_image, pos = 0x128\<rparr>)"
    by (simp add: fseek_set_def demo_fread)
  have 4: "overlay demo_header (uninit demo_junk ''np_header'' 256) = demo_header"
    by (simp add: overlay_full length_uninit length_demo_header)
  have 5: "bbmac_getkey demo_ports (take 0xc0 demo_header) (take 0x10 (drop 0xc0 demo_header)) =
        replicate 16 0"
    by (simp add: demo_ports_def)
  have 7: "take 0x40 demo_header
        @ sceDrmBBCipher demo_ports (replicate 16 0) (replicate 16 0) 0 (take 0x60 (drop 0x40 demo_header))
        @ drop 0xa0 demo_header = demo_header"
    by (simp only: demo_cipher demo_header_split)
  have 11: "le32 (drop 0x64 demo_header) - le32 (drop 0x54 demo_header) + 1 = 6"
    by (simp add: demo_header_fields)
  have 12: "((6 :: u32) + 2 - 1) div 2 = 3"
    by simp
  have 13: "fread (fseek_set \<lparr>content = demo_image, pos = 0x128\<rparr>
          (uint (0x28 + le32 (drop 0x6c demo_header)))) (unat ((3 :: u32) * 32)) =
        (demo_table, \<lparr>content = demo_image, pos = 0x188\<rparr>)"
    by (simp add: fseek_set_def demo_fread demo_header_fields)
  have 14: "descramble_table (map (\<lambda>i. words8_of_bytes (drop (32 * i)
           (overlay demo_table (uninit demo_junk ''table'' (32 * unat (3 :: u32))))))
           [0..<unat (3 :: u32)]) =
        [(0, 0, 0, 0, 0x160, 0x1000, 4, 0), (0, 0, 0, 0, 0, 0, 0, 1), (0, 0, 0, 0, 0, 0, 0, 1)]"
    by (simp add: overlay_full length_uninit length_demo_table upt3 demo_table_entries
        descramble_entry_def)
  show ?thesis
    using NPDRM_ctor_cases [OF 1 2 3 4 5 demo_hkey 7 demo_header_fields(1) 11 12 13 14]
    by (simp add: demo_dev_def)
qed

text \<open>What the branches of \<^verbatim>\<open>ReadBlock\<close> do to the caller's buffer.\<close>

lemma ReadBlock_copy_True:
  assumes "ReadBlock_copy dev lba outPtr = Inr (dev', out', ok)"
  shows "ok \<and> dev' = dev"
  using assms by (auto simp: ReadBlock_copy_def split: if_splits sum.splits)



text \<open>
  Every call that returns \<^verbatim>\<open>false\<close> has gone past the assignment of
  \<open>currentBlock\<close>: afterwards \<open>currentBlock\<close> is the first block of the unit
  that was asked for.
\<close>

lemma ReadBlock_fetch_False_currentBlock:
  assumes "ReadBlock_fetch p dev block lba outPtr = Inr (dev', out', False)"
  shows "currentBlock dev' = currentBlock dev \<and> blockLBAs dev' = blockLBAs dev"
  using assms
  by (auto simp: ReadBlock_fetch_def Let_def split: sum.splits prod.splits if_splits
      dest: ReadBlock_copy_True)

lemma NPDRM_failure_keeps_unit:
  assumes "NPDRM_ReadBlock p dev b outPtr = Inr (dev', out', False)"
  shows "currentBlock dev' = word_of_int (sint b sdiv sint (blockLBAs dev)) * blockLBAs dev
         \<and> blockLBAs dev' = blockLBAs dev"
  using assms
  by (auto simp: NPDRM_ReadBlock_def Let_def split: if_splits
      dest: ReadBlock_copy_True ReadBlock_fetch_False_currentBlock)

text \<open>
  A read that does not hit the cache and finds a sentinel entry returns
  \<^verbatim>\<open>true\<close> for the last unit and \<^verbatim>\<open>false\<close> for any other; the buffer is as
  it was, and \<open>currentBlock\<close> is the first block of the unit.
\<close>

lemma NPDRM_ReadBlock_sentinel:
  assumes "\<not> (0 \<le> sint (blockNumber - currentBlock dev)
              \<and> sint (blockNumber - currentBlock dev) < sint (blockLBAs dev))"
    and "blockLBAs dev \<noteq> 0"
    and "\<not> (blockNumber = - 0x80000000 \<and> blockLBAs dev = - 1)"
    and "block = word_of_int (sint blockNumber sdiv sint (blockLBAs dev))"
    and "0 \<le> sint block" and "nat (sint block) < length (table dev)"
    and "ti_unk_1c (table dev ! nat (sint block)) \<noteq> 0"
  shows "NPDRM_ReadBlock p dev blockNumber outPtr =
           Inr (dev\<lparr>currentBlock := block * blockLBAs dev\<rparr>, outPtr,
                block = npdrm_numBlocks dev - 1)"
proof -
  have miss: "(0 \<le> sint (blockNumber - currentBlock dev)
      \<and> sint (blockNumber - currentBlock dev) < sint (blockLBAs dev)) = False"
    using assms(1) by simp
  have trap: "(blockLBAs dev = 0 \<or> (blockNumber = - 0x80000000 \<and> blockLBAs dev = - 1)) = False"
    using assms(2,3) by simp
  show ?thesis
    unfolding NPDRM_ReadBlock_def Let_def miss trap
    using assms(4-7) by simp
qed

text \<open>
  So after a call that returned \<^verbatim>\<open>false\<close>, a read of any block in the window of
  that unit is taken for a hit of the cache and copies from \<open>blockBuf\<close>.
\<close>

lemma NPDRM_failure_then_hit:
  assumes "NPDRM_ReadBlock p dev b outPtr = Inr (dev', out', False)"
    and "c = word_of_int (sint b sdiv sint (blockLBAs dev)) * blockLBAs dev"
    and "0 \<le> sint (b2 - c)" and "sint (b2 - c) < sint (blockLBAs dev)"
  shows "NPDRM_ReadBlock p dev' b2 out2 = ReadBlock_copy dev' (b2 - c) out2"
  using NPDRM_failure_keeps_unit [OF assms(1)] assms(2-4)
  by (simp add: NPDRM_ReadBlock_def Let_def)

text \<open>Reads on the NPDRM image.\<close>

lemma demo_fields:
  "currentBlock demo_dev = - 1" "blockLBAs demo_dev = 2" "npdrm_numBlocks demo_dev = 3"
  "length (table demo_dev) = 3" "table demo_dev ! 1 = (0, 0, 0, 0, 0, 0, 0, 1)"
  "table demo_dev ! Suc 0 = (0, 0, 0, 0, 0, 0, 0, 1)"
  by (simp_all add: demo_dev_def)

lemma demo_fields2:
  "table demo_dev ! 2 = (0, 0, 0, 0, 0, 0, 0, 1)"
  by (simp add: demo_dev_def)

lemma demo_fields1:
  "currentBlock demo_dev1 = 2" "blockLBAs demo_dev1 = 2" "npdrm_numBlocks demo_dev1 = 3"
  "length (table demo_dev1) = 3" "table demo_dev1 ! 1 = (0, 0, 0, 0, 0, 0, 0, 1)"
  "table demo_dev1 ! Suc 0 = (0, 0, 0, 0, 0, 0, 0, 1)"
  by (simp_all add: demo_dev1_def demo_dev_def)

lemma demo_read0:
  "NPDRM_ReadBlock demo_ports demo_dev 0 (replicate 2048 0xEE) =
     Inr (demo_dev, replicate 2048 0xCD, True)"
  "ReadBlock_copy demo_dev 1 (replicate 2048 0xEE) = Inr (demo_dev, replicate 2048 0xCD, True)"
  by (simp_all add: NPDRM_ReadBlock_def ReadBlock_copy_def demo_dev_def demo_uninit mem_read_def
      mem_write_full Let_def)

lemma demo_read2:
  "NPDRM_ReadBlock demo_ports demo_dev 2 (replicate 2048 c) = Inr (demo_dev1, replicate 2048 c, False)"
  by (simp add: NPDRM_ReadBlock_def demo_dev_def demo_dev1_def Let_def
      signed_divide_int_def signed_modulo_int_def ti_unk_1c_def)

lemma demo_read2_again:
  "NPDRM_ReadBlock demo_ports demo_dev1 2 (replicate 2048 0xEE) =
     Inr (demo_dev1, replicate 2048 0xCD, True)"
  by (simp add: NPDRM_ReadBlock_def ReadBlock_copy_def demo_dev_def demo_dev1_def demo_uninit
      mem_read_def mem_write_full Let_def)

lemma demo_read3:
  "NPDRM_ReadBlock demo_ports demo_dev1 3 (replicate 2048 0xEE) =
     Inr (demo_dev1, replicate 2048 0xCD, True)"
  by (simp add: NPDRM_ReadBlock_def ReadBlock_copy_def demo_dev_def demo_dev1_def demo_uninit
      mem_read_def mem_write_full Let_def)

lemma demo_copy1:
  "ReadBlock_copy demo_dev1 1 (replicate 2048 0xEE) = Inr (demo_dev1, replicate 2048 0xCD, True)"
  by (simp add: ReadBlock_copy_def demo_dev_def demo_dev1_def demo_uninit mem_read_def mem_write_full)

lemma demo_read4:
  "NPDRM_ReadBlock demo_ports demo_dev 4 (replicate 2048 0xEE) =
     Inr (demo_dev\<lparr>currentBlock := 4\<rparr>, replicate 2048 0xEE, True)"
  by (simp add: NPDRM_ReadBlock_def demo_dev_def Let_def
      signed_divide_int_def signed_modulo_int_def ti_unk_1c_def)

lemma demo_read4_again:
  "NPDRM_ReadBlock demo_ports (demo_dev\<lparr>currentBlock := 4\<rparr>) 4 (replicate 2048 0xEE) =
     Inr (demo_dev\<lparr>currentBlock := 4\<rparr>, replicate 2048 0xCD, True)"
  by (simp add: NPDRM_ReadBlock_def ReadBlock_copy_def demo_dev_def demo_uninit
      mem_read_def mem_write_full Let_def)

lemma demo_read1:
  "NPDRM_ReadBlock demo_ports demo_dev 1 (replicate 2048 0xEE) =
     Inr (demo_dev\<lparr>npdrm_f := \<lparr>content = demo_image, pos = 0x1188\<rparr>, currentBlock := 0,
            blockBuf := replicate 2048 0x11 @ replicate 2048 0x22\<rparr>, replicate 2048 0x22, True)"
proof -
  have f: "ReadBlock_fetch demo_ports (demo_dev\<lparr>currentBlock := 0\<rparr>) 0 1 (replicate 2048 0xEE) =
     Inr (demo_dev\<lparr>npdrm_f := \<lparr>content = demo_image, pos = 0x1188\<rparr>, currentBlock := 0,
            blockBuf := replicate 2048 0x11 @ replicate 2048 0x22\<rparr>, replicate 2048 0x22, True)"
    by (simp add: ReadBlock_fetch_def ReadBlock_copy_def demo_dev_def Let_def fseek_set_def
        demo_fread ti_offset_def ti_size_def ti_flag_def demo_uninit mem_write_full mem_read_def)
  show ?thesis
    using f
    by (simp add: NPDRM_ReadBlock_def demo_dev_def Let_def
      signed_divide_int_def signed_modulo_int_def ti_unk_1c_def)
qed

subsection \<open>The claims\<close>




text \<open>
  Claim C2, as amended.  The descrambling transform maps the words \<open>p0 .. p7\<close> of
  an entry to \<open>(p0, p1, p2, p3, p4 XOR (p2 XOR p3), p5 XOR (p1 XOR p2),
  p6 XOR (p0 XOR p3), p7 XOR (p0 XOR p1))\<close>, and it is its own inverse: applied
  twice it gives back the raw words of every entry.
\<close>

theorem descramble_entry_involution:
  "descramble_entry (p0, p1, p2, p3, p4, p5, p6, p7) =
     (p0, p1, p2, p3, p4 XOR (p2 XOR p3), p5 XOR (p1 XOR p2),
      p6 XOR (p0 XOR p3), p7 XOR (p0 XOR p1))
   \<and> descramble_entry (descramble_entry (p0, p1, p2, p3, p4, p5, p6, p7)) =
     (p0, p1, p2, p3, p4, p5, p6, p7)"
  by (simp add: descramble_entry_def Let_def xor_twice)

text \<open>
  Claim C2 as the specification states it, refuted: there is no entry that two
  applications of the transform fail to restore.
\<close>

theorem descramble_twice_counterexample:
  "\<not> (\<exists>p. descramble_entry (descramble_entry p) \<noteq> p)"
  by (auto simp: descramble_entry_def Let_def xor_twice)

text \<open>
  Claim C3, on the NPDRM image (units of two blocks).  The device is the one the
  constructor returns, with \<open>currentBlock = -1\<close>.  The first read, of block 0,
  computes \<open>lba = 0 - (-1) = 1\<close>, which is inside \<open>[0, blockLBAs)\<close>: the call takes
  the cache-hit path, fetches nothing (the device is unchanged), and returns
  success with the second 2048 bytes of the never written \<open>blockBuf\<close> instead of
  the \<open>0x11\<close> bytes of the block.
\<close>

theorem fresh_NPDRM_read_hits_cache:
  "NPDRMDemoBlockDevice demo_ports demo_junk \<lparr>content = demo_image, pos = 0\<rparr> = Inr demo_dev
   \<and> currentBlock demo_dev = - 1
   \<and> NPDRM_ReadBlock demo_ports demo_dev 0 (replicate 2048 0xEE) =
       ReadBlock_copy demo_dev 1 (replicate 2048 0xEE)
   \<and> NPDRM_ReadBlock demo_ports demo_dev 0 (replicate 2048 0xEE) =
       Inr (demo_dev, replicate 2048 0xCD, True)"
  by (simp add: demo_ctor demo_read0 demo_fields)

text \<open>
  Claim C4, on the NPDRM image.  The read of block 2 fails (sentinel entry of unit
  1, which is not the last unit) and leaves \<open>currentBlock = 2\<close>.  The next read of
  block 3, in the same unit, is served from the cache: it returns success with
  bytes of \<open>blockBuf\<close> that no fetch has written, and the device is unchanged.
\<close>

theorem failed_NPDRM_read_then_cache_hit:
  "NPDRM_ReadBlock demo_ports demo_dev 2 (replicate 2048 0xEE) =
     Inr (demo_dev1, replicate 2048 0xEE, False)
   \<and> currentBlock demo_dev1 = 2
   \<and> NPDRM_ReadBlock demo_ports demo_dev1 3 (replicate 2048 0xEE) =
       ReadBlock_copy demo_dev1 1 (replicate 2048 0xEE)
   \<and> NPDRM_ReadBlock demo_ports demo_dev1 3 (replicate 2048 0xEE) =
       Inr (demo_dev1, replicate 2048 0xCD, True)"
  by (simp add: demo_read2 demo_read3 demo_copy1 demo_fields1)

text \<open>
  Claim C5, on the NPDRM image.  The entries of units 1 and 2 are sentinels
  (\<open>unk\<close> is nonzero); unit 2 is the last unit, unit 1 is not.  The read of
  block 2 (unit 1) returns failure, as the claim says, and leaves
  \<open>currentBlock = 2\<close>; the same read made again is served from the cache without
  a look at the table: it returns success and writes the buffer.  The read of
  block 4 (unit 2) returns success with the buffer untouched and leaves
  \<open>currentBlock = 4\<close>; the same read made again returns success from the cache
  and overwrites the buffer with the never written \<open>blockBuf\<close>.
\<close>

theorem sentinel_unit_served_from_cache:
  "NPDRMDemoBlockDevice demo_ports demo_junk \<lparr>content = demo_image, pos = 0\<rparr> = Inr demo_dev
   \<and> ti_unk_1c (table demo_dev ! 1) \<noteq> 0 \<and> (1 :: u32) \<noteq> npdrm_numBlocks demo_dev - 1
   \<and> NPDRM_ReadBlock demo_ports demo_dev 2 (replicate 2048 0xEE) =
       Inr (demo_dev1, replicate 2048 0xEE, False)
   \<and> table demo_dev1 = table demo_dev \<and> npdrm_numBlocks demo_dev1 = npdrm_numBlocks demo_dev
   \<and> NPDRM_ReadBlock demo_ports demo_dev1 2 (replicate 2048 0xEE) =
       Inr (demo_dev1, replicate 2048 0xCD, True)
   \<and> ti_unk_1c (table demo_dev ! 2) \<noteq> 0 \<and> (2 :: u32) = npdrm_numBlocks demo_dev - 1
   \<and> NPDRM_ReadBlock demo_ports demo_dev 4 (replicate 2048 0xEE) =
       Inr (demo_dev\<lparr>currentBlock := 4\<rparr>, replicate 2048 0xEE, True)
   \<and> NPDRM_ReadBlock demo_ports (demo_dev\<lparr>currentBlock := 4\<rparr>) 4 (replicate 2048 0xEE) =
       Inr (demo_dev\<lparr>currentBlock := 4\<rparr>, replicate 2048 0xCD, True)"
proof -
  have same: "table demo_dev1 = table demo_dev"
    "npdrm_numBlocks demo_dev1 = npdrm_numBlocks demo_dev"
    by (simp_all add: demo_dev1_def)
  show ?thesis
    by (simp add: demo_ctor demo_read2 demo_read2_again demo_read4 demo_read4_again demo_fields
        demo_fields2 same ti_unk_1c_def)
qed

text \<open>
  Claim C6.  For the CISO device, \<open>read_block\<close> with a block number greater than
  or equal to \<open>block_count\<close> (compared as unsigned 32 bit integers) zero-fills
  the 2048-byte buffer and returns failure; the device is unchanged and the
  decompressor is not called.
\<close>

theorem CISO_ReadBlock_out_of_range:
  assumes "ciso_numBlocks dev \<le> blockNumber" and "length outPtr = 2048"
  shows "CISO_ReadBlock z dev blockNumber outPtr = Inr (dev, replicate 2048 0, False, 0)"
  using assms by (simp add: CISO_ReadBlock_def GetBlockSize_def memset_full)

theorem CISO_ReadBlock_out_of_range_witness:
  "CISOFileBlockDevice demo_junk \<lparr>content = cso_image, pos = 0\<rparr> = Inr cso_dev
   \<and> ciso_numBlocks cso_dev \<le> 6 \<and> length (replicate 2048 (0xEE :: u8)) = 2048
   \<and> CISO_ReadBlock demo_zlib cso_dev (ciso_numBlocks cso_dev) (replicate 2048 0xEE) =
       Inr (cso_dev, replicate 2048 0, False, 0)"
  using CISO_ReadBlock_out_of_range [of cso_dev 6 "replicate 2048 0xEE" demo_zlib] cso_ctor
  by (simp add: cso_fields)



text \<open>
  Claim C8.  For a plain device (\<open>filesize\<close> is the length of the file, as the
  constructor sets it) and a block number \<open>n\<close> that is a non-negative \<^verbatim>\<open>int\<close>
  with \<open>n < block_count\<close>, \<open>read_block(n)\<close> writes into the buffer exactly the
  2048 bytes at byte offset \<open>n * 2048\<close> of the file and returns success.
\<close>

theorem File_ReadBlock_in_range:
  assumes "filesize dev = length (content (file_f dev))"
    and "0 \<le> sint n"
    and "n < File_GetNumBlocks dev"
    and "length outPtr = 2048"
  shows "\<exists>dev'. File_ReadBlock dev n outPtr =
           Inr (dev', take 2048 (drop (unat n * 2048) (content (file_f dev))), True)
         \<and> length (take 2048 (drop (unat n * 2048) (content (file_f dev)))) = 2048"
proof -
  let ?c = "content (file_f dev)"
  have "unat n < unat (File_GetNumBlocks dev)"
    using assms(3) by (simp add: word_less_nat_alt)
  also have "\<dots> \<le> length ?c div 2048"
    using assms(1) by (simp add: File_GetNumBlocks_def GetBlockSize_def unat_of_nat)
  finally have "unat n * 2048 + 2048 \<le> length ?c"
    by simp
  then have len: "length (take 2048 (drop (unat n * 2048) ?c)) = 2048"
    by simp
  have seek: "fseek_set (file_f dev) (sint ((scast n :: u64) * 2048)) =
      (file_f dev)\<lparr>pos := unat n * 2048\<rparr>"
    unfolding block_offset [OF assms(2)] fseek_set_def by (simp only: nat_int) simp
  show ?thesis
    using len assms(4)
    by (simp add: File_ReadBlock_def seek fread_def Let_def mem_write_full)
qed

theorem File_ReadBlock_in_range_witness:
  "filesize (FileBlockDevice \<lparr>content = iso_image, pos = 0\<rparr>) =
     length (content (file_f (FileBlockDevice \<lparr>content = iso_image, pos = 0\<rparr>)))
   \<and> 0 \<le> sint (1 :: s32)
   \<and> 1 < File_GetNumBlocks (FileBlockDevice \<lparr>content = iso_image, pos = 0\<rparr>)
   \<and> length (replicate 2048 (0xEE :: u8)) = 2048
   \<and> (\<exists>dev'. File_ReadBlock (FileBlockDevice \<lparr>content = iso_image, pos = 0\<rparr>) 1
               (replicate 2048 0xEE) = Inr (dev', replicate 2048 0x02, True))"
  using File_ReadBlock_in_range [of "FileBlockDevice \<lparr>content = iso_image, pos = 0\<rparr>" 1
      "replicate 2048 0xEE"] iso_block1
  by (simp add: iso_dev length_iso_image File_GetNumBlocks_def GetBlockSize_def word_less_nat_alt)

text \<open>
  Claim C9.  The factory reads the first 4 bytes of the file and selects the
  device from them alone: a file that cannot be opened gives no device; first
  bytes \<open>CISO\<close> give what the CISO constructor makes of the file, first bytes
  0, \<open>P\<close>, \<open>B\<close>, \<open>P\<close> give what the NPDRM constructor makes of it, and any other
  first bytes (also fewer than 4) give the plain device.  The stream handed to
  the constructor is at position 0.
\<close>

theorem constructBlockDevice_selects:
  "(fs filename = None \<longrightarrow> constructBlockDevice p j fs filename = None)
   \<and> (fs filename = Some bytes \<and> take 4 bytes = bytes_of ''CISO'' \<longrightarrow>
        constructBlockDevice p j fs filename =
          Some (map_sum id CISO (CISOFileBlockDevice j \<lparr>content = bytes, pos = 0\<rparr>)))
   \<and> (fs filename = Some bytes \<and> take 4 bytes = 0 # bytes_of ''PBP'' \<longrightarrow>
        constructBlockDevice p j fs filename =
          Some (map_sum id NPDRM (NPDRMDemoBlockDevice p j \<lparr>content = bytes, pos = 0\<rparr>)))
   \<and> (fs filename = Some bytes \<and> take 4 bytes \<noteq> bytes_of ''CISO''
        \<and> take 4 bytes \<noteq> 0 # bytes_of ''PBP'' \<longrightarrow>
        constructBlockDevice p j fs filename =
          Some (Inr (Plain (FileBlockDevice \<lparr>content = bytes, pos = 0\<rparr>))))"
proof -
  define d where "d = take 4 bytes"
  have fr: "fread \<lparr>content = bytes, pos = 0\<rparr> 4 = (d, \<lparr>content = bytes, pos = length d\<rparr>)"
    unfolding d_def by (simp add: fread_def Let_def)
  have ov: "length d = 4 \<Longrightarrow> overlay d (uninit j ''buffer'' 4) = d"
    by (simp add: overlay_full length_uninit)
  have none: "fs filename = None \<Longrightarrow> constructBlockDevice p j fs filename = None"
    by (simp add: constructBlockDevice_def)
  have ciso: "constructBlockDevice p j fs filename =
          Some (map_sum id CISO (CISOFileBlockDevice j \<lparr>content = bytes, pos = 0\<rparr>))"
    if "fs filename = Some bytes" "d = bytes_of ''CISO''"
  proof -
    have "length d = 4"
      using that(2) by (simp add: bytes_of_CISO)
    then show ?thesis
      using that ov by (simp add: constructBlockDevice_def fr Let_def fseek_set_def)
  qed
  have pbp: "constructBlockDevice p j fs filename =
          Some (map_sum id NPDRM (NPDRMDemoBlockDevice p j \<lparr>content = bytes, pos = 0\<rparr>))"
    if "fs filename = Some bytes" "d = 0 # bytes_of ''PBP''"
  proof -
    have l: "length d = 4"
      using that(2) by (simp add: bytes_of_PBP)
    have "d \<noteq> bytes_of ''CISO''"
      using that(2) by (simp add: bytes_of_PBP bytes_of_CISO)
    then show ?thesis
      using that ov l by (simp add: constructBlockDevice_def fr Let_def fseek_set_def)
  qed
  have plain: "constructBlockDevice p j fs filename =
          Some (Inr (Plain (FileBlockDevice \<lparr>content = bytes, pos = 0\<rparr>)))"
    if "fs filename = Some bytes" "d \<noteq> bytes_of ''CISO''" "d \<noteq> 0 # bytes_of ''PBP''"
    using that ov
    by (cases "length d = 4") (simp_all add: constructBlockDevice_def fr Let_def fseek_set_def)
  show ?thesis
    using none ciso pbp plain unfolding d_def by blast
qed

theorem constructBlockDevice_selects_witness:
  "demo_fs ''none.iso'' = None
   \<and> constructBlockDevice demo_ports demo_junk demo_fs ''none.iso'' = None
   \<and> demo_fs ''game.cso'' = Some cso_image \<and> take 4 cso_image = bytes_of ''CISO''
   \<and> constructBlockDevice demo_ports demo_junk demo_fs ''game.cso'' = Some (Inr (CISO cso_dev))
   \<and> demo_fs ''demo.pbp'' = Some demo_image \<and> take 4 demo_image = 0 # bytes_of ''PBP''
   \<and> constructBlockDevice demo_ports demo_junk demo_fs ''demo.pbp'' = Some (Inr (NPDRM demo_dev))
   \<and> demo_fs ''game.iso'' = Some iso_image \<and> take 4 iso_image \<noteq> bytes_of ''CISO''
   \<and> take 4 iso_image \<noteq> 0 # bytes_of ''PBP''
   \<and> constructBlockDevice demo_ports demo_junk demo_fs ''game.iso'' =
       Some (Inr (Plain \<lparr>file_f = \<lparr>content = iso_image, pos = 0\<rparr>, filesize = 4196\<rparr>))"
proof -
  have fs: "demo_fs ''none.iso'' = None" "demo_fs ''game.cso'' = Some cso_image"
    "demo_fs ''demo.pbp'' = Some demo_image" "demo_fs ''game.iso'' = Some iso_image"
    by (simp_all add: demo_fs_def)
  have m: "take 4 cso_image = bytes_of ''CISO''" "take 4 demo_image = 0 # bytes_of ''PBP''"
    "take 4 iso_image \<noteq> bytes_of ''CISO''" "take 4 iso_image \<noteq> 0 # bytes_of ''PBP''"
    by (simp_all add: cso_image_def cso_header_def demo_image_def iso_magic bytes_of_CISO
        bytes_of_PBP)
  show ?thesis
    using constructBlockDevice_selects [of demo_fs "''none.iso''" demo_ports demo_junk]
      constructBlockDevice_selects [of demo_fs "''game.cso''" demo_ports demo_junk cso_image]
      constructBlockDevice_selects [of demo_fs "''demo.pbp''" demo_ports demo_junk demo_image]
      constructBlockDevice_selects [of demo_fs "''game.iso''" demo_ports demo_junk iso_image]
      fs m
    by (simp add: cso_ctor demo_ctor iso_dev)
qed

text \<open>
  Claim C10.  For the CISO device, a read of a block in range whose frame has the
  stored-uncompressed flag set completes with success, calls no decompressor,
  and changes nothing of the device but the position of the stream: the frame
  cache is as it was, \<open>zlibBufferFrame\<close> and \<open>zlibBuffer\<close> are the same before
  and after the call.
\<close>

theorem CISO_plain_keeps_cache:
  assumes "blockNumber < ciso_numBlocks dev"
    and "unat (frameNumber_of dev blockNumber) < length (index dev)"
    and "unat (frameNumber_of dev blockNumber + 1) < length (index dev)"
    and "index dev ! unat (frameNumber_of dev blockNumber) AND 0x80000000 \<noteq> 0"
    and "length outPtr = 2048"
  shows "\<exists>f' out'. CISO_ReadBlock z dev blockNumber outPtr = Inr (dev\<lparr>ciso_f := f'\<rparr>, out', True, 0)
           \<and> zlibBufferFrame (dev\<lparr>ciso_f := f'\<rparr>) = zlibBufferFrame dev
           \<and> zlibBuffer (dev\<lparr>ciso_f := f'\<rparr>) = zlibBuffer dev
           \<and> length out' = 2048"
proof -
  let ?fr = "frameNumber_of dev blockNumber"
  let ?idx = "index dev ! unat ?fr"
  obtain f' out' where r: "ReadBlock_plain dev (compressedReadPos_of dev ?idx)
      (compressedOffset_of dev blockNumber) outPtr = Inr (dev\<lparr>ciso_f := f'\<rparr>, out', True, 0)"
    and l: "length out' = 2048"
    using ReadBlock_plain_result [OF assms(5)] by blast
  have inr: "\<not> ciso_numBlocks dev \<le> blockNumber"
    using assms(1) by (simp add: not_le)
  have "CISO_ReadBlock z dev blockNumber outPtr = Inr (dev\<lparr>ciso_f := f'\<rparr>, out', True, 0)"
    using inr assms(2-4) r by (simp add: CISO_ReadBlock_def Let_def)
  then have "CISO_ReadBlock z dev blockNumber outPtr = Inr (dev\<lparr>ciso_f := f'\<rparr>, out', True, 0)
      \<and> zlibBufferFrame (dev\<lparr>ciso_f := f'\<rparr>) = zlibBufferFrame dev
      \<and> zlibBuffer (dev\<lparr>ciso_f := f'\<rparr>) = zlibBuffer dev
      \<and> length out' = 2048"
    using l by simp
  then show ?thesis
    by blast
qed

theorem CISO_plain_keeps_cache_witness:
  "4 < ciso_numBlocks cso_dev1
   \<and> unat (frameNumber_of cso_dev1 4) < length (index cso_dev1)
   \<and> unat (frameNumber_of cso_dev1 4 + 1) < length (index cso_dev1)
   \<and> index cso_dev1 ! unat (frameNumber_of cso_dev1 4) AND 0x80000000 \<noteq> 0
   \<and> length (replicate 2048 (0xA0 :: u8)) = 2048
   \<and> (\<exists>f' out'. CISO_ReadBlock demo_zlib cso_dev1 4 (replicate 2048 0xA0) =
           Inr (cso_dev1\<lparr>ciso_f := f'\<rparr>, out', True, 0)
         \<and> zlibBufferFrame (cso_dev1\<lparr>ciso_f := f'\<rparr>) = zlibBufferFrame cso_dev1
         \<and> zlibBuffer (cso_dev1\<lparr>ciso_f := f'\<rparr>) = zlibBuffer cso_dev1
         \<and> length out' = 2048)
   \<and> CISO_ReadBlock demo_zlib cso_dev1 4 (replicate 2048 0xA0) =
       Inr (cso_dev1\<lparr>ciso_f := \<lparr>content = cso_image, pos = 0x838\<rparr>\<rparr>, replicate 2048 0x33, True, 0)
   \<and> zlibBufferFrame cso_dev1 = 0"
  using CISO_plain_keeps_cache [of 4 cso_dev1 "replicate 2048 0xA0" demo_zlib] cso_read4
  by (simp add: cso_fields1 cso_frames word_less_nat_alt)

end
